theory Spec2Isabelle
  imports Main "HOL-Library.AList" "HOL-Library.Sublist"
begin

section \<open>JSON values and JavaScript primitives\<close>

text \<open>
  A decoded JSON value, as \<^verbatim>\<open>JSON.parse\<close> and \<^verbatim>\<open>express.json()\<close> hand it to the
  code. An object is the list of its own properties in insertion order. Numbers are
  carried as integers: the schemas only ask whether a value is a number, and
  \<^verbatim>\<open>Boolean(x)\<close> only whether it is zero. The integers meant are those a double carries
  exactly (below 2 to the power 53 in magnitude), which \<^verbatim>\<open>JSON.stringify\<close> prints digit by digit;
  fractions and larger numbers are not covered.
\<close>

datatype json =
    JNull
  | JBool bool
  | JNum int
  | JStr string
  | JArr "json list"
  | JObj "(string \<times> json) list"

text \<open>\<^verbatim>\<open>x[key]\<close>: \<open>None\<close> is JavaScript's \<^verbatim>\<open>undefined\<close>.\<close>

fun getProp :: "json \<Rightarrow> string \<Rightarrow> json option" where
  "getProp (JObj kvs) k = map_of kvs k"
| "getProp _ k = None"

text \<open>\<^verbatim>\<open>typeof x === 'object' && x !== null && key in x\<close> (an array has no such key).\<close>

fun hasKey :: "string \<Rightarrow> json \<Rightarrow> bool" where
  "hasKey k (JObj kvs) = (map_of kvs k \<noteq> None)"
| "hasKey k _ = False"

text \<open>\<^verbatim>\<open>Boolean(x)\<close>, with \<open>None\<close> for \<^verbatim>\<open>undefined\<close>.\<close>

fun Boolean :: "json option \<Rightarrow> bool" where
  "Boolean None = False"
| "Boolean (Some JNull) = False"
| "Boolean (Some (JBool b)) = b"
| "Boolean (Some (JNum n)) = (n \<noteq> 0)"
| "Boolean (Some (JStr s)) = (s \<noteq> [])"
| "Boolean (Some (JArr xs)) = True"
| "Boolean (Some (JObj kvs)) = True"

text \<open>\<^verbatim>\<open>s.includes(t)\<close>, \<^verbatim>\<open>s.endsWith(t)\<close> and \<^verbatim>\<open>s.split(c)\<close> for a one-character separator.\<close>

fun js_includes :: "string \<Rightarrow> string \<Rightarrow> bool" where
  "js_includes [] t = (t = [])"
| "js_includes (c # cs) t = (prefix t (c # cs) \<or> js_includes cs t)"

definition endsWith :: "string \<Rightarrow> string \<Rightarrow> bool" where
  "endsWith s t = (length t \<le> length s \<and> drop (length s - length t) s = t)"

fun split :: "char \<Rightarrow> string \<Rightarrow> string list" where
  "split c [] = [[]]"
| "split c (x # xs) =
     (if x = c then [] # split c xs
      else (case split c xs of [] \<Rightarrow> [[x]] | l # ls \<Rightarrow> (x # l) # ls))"

text \<open>\<^verbatim>\<open>String(n)\<close> for an integer.\<close>

definition digit :: "nat \<Rightarrow> char" where
  "digit d = (if d < 16 then ''0123456789abcdef'' ! d else CHR ''?'')"

fun String_nat :: "nat \<Rightarrow> string" where
  "String_nat n = (if n < 10 then [digit n] else String_nat (n div 10) @ [digit (n mod 10)])"

declare String_nat.simps [simp del]

definition String_int :: "int \<Rightarrow> string" where
  "String_int i = (if i < 0 then CHR ''-'' # String_nat (nat (- i)) else String_nat (nat i))"

text \<open>
  \<^verbatim>\<open>JSON.stringify(x)\<close> without indentation: the quote, the backslash and the control
  characters of a string are escaped, so the text never holds a raw line feed.
\<close>

definition escape :: "char \<Rightarrow> string" where
  "escape c =
     (if c = CHR 0x22 then [CHR 0x5C, CHR 0x22]
      else if c = CHR 0x5C then [CHR 0x5C, CHR 0x5C]
      else if c = CHR 0x08 then [CHR 0x5C, CHR ''b'']
      else if c = CHR 0x0C then [CHR 0x5C, CHR ''f'']
      else if c = CHR 0x0A then [CHR 0x5C, CHR ''n'']
      else if c = CHR 0x0D then [CHR 0x5C, CHR ''r'']
      else if c = CHR 0x09 then [CHR 0x5C, CHR ''t'']
      else if of_char c < (32 :: nat)
        then [CHR 0x5C, CHR ''u'', CHR ''0'', CHR ''0'',
              digit (of_char c div 16), digit (of_char c mod 16)]
      else [c])"

definition quote :: "string \<Rightarrow> string" where
  "quote s = CHR 0x22 # concat (map escape s) @ [CHR 0x22]"

fun commas :: "string list \<Rightarrow> string" where
  "commas [] = []"
| "commas [x] = x"
| "commas (x # y # ys) = x @ CHR '','' # commas (y # ys)"

fun stringify :: "json \<Rightarrow> string" where
  "stringify JNull = ''null''"
| "stringify (JBool b) = (if b then ''true'' else ''false'')"
| "stringify (JNum n) = String_int n"
| "stringify (JStr s) = quote s"
| "stringify (JArr xs) = CHR ''['' # commas (map stringify xs) @ '']''"
| "stringify (JObj kvs) =
     CHR ''{'' # commas (map (\<lambda>kv. quote (fst kv) @ CHR '':'' # stringify (snd kv)) kvs) @ ''}''"

section \<open>Validation schemas (src/validation/schemas.ts)\<close>

text \<open>
  A zod schema is a function from the input to the parsed data, \<open>None\<close> when the input is
  refused. An object schema keeps, in the order of its shape, the keys of the shape that
  the input has, and strips the others.
\<close>

definition pick :: "string list \<Rightarrow> (string \<times> json) list \<Rightarrow> (string \<times> json) list" where
  "pick ks kvs = List.map_filter (\<lambda>k. map_option (Pair k) (map_of kvs k)) ks"

definition JSONRPCVersionSchema :: "json option \<Rightarrow> bool" where
  "JSONRPCVersionSchema v = (v = Some (JStr ''2.0''))"

fun JSONRPCIdSchema :: "json option \<Rightarrow> bool" where
  "JSONRPCIdSchema (Some (JStr s)) = True"
| "JSONRPCIdSchema (Some (JNum n)) = True"
| "JSONRPCIdSchema (Some JNull) = True"
| "JSONRPCIdSchema _ = False"

fun isString :: "json option \<Rightarrow> bool" where
  "isString (Some (JStr s)) = True"
| "isString _ = False"

fun isNumber :: "json option \<Rightarrow> bool" where
  "isNumber (Some (JNum n)) = True"
| "isNumber _ = False"

fun JSONRPCErrorSchema :: "json \<Rightarrow> json option" where
  "JSONRPCErrorSchema (JObj kvs) =
     (if isNumber (map_of kvs ''code'') \<and> isString (map_of kvs ''message'')
      then Some (JObj (pick [''code'', ''message'', ''data''] kvs)) else None)"
| "JSONRPCErrorSchema _ = None"

fun JSONRPCRequestSchema :: "json \<Rightarrow> json option" where
  "JSONRPCRequestSchema (JObj kvs) =
     (if JSONRPCVersionSchema (map_of kvs ''jsonrpc'')
         \<and> (map_of kvs ''id'' = None \<or> JSONRPCIdSchema (map_of kvs ''id''))
         \<and> isString (map_of kvs ''method'')
      then Some (JObj (pick [''jsonrpc'', ''id'', ''method'', ''params''] kvs)) else None)"
| "JSONRPCRequestSchema _ = None"

text \<open>
  The response schema: the object shape first, then the refinement
  \<^verbatim>\<open>Boolean(data.result) !== Boolean(data.error)\<close> on the parsed data.
\<close>

fun JSONRPCResponseObject :: "json \<Rightarrow> json option" where
  "JSONRPCResponseObject (JObj kvs) =
     (if JSONRPCVersionSchema (map_of kvs ''jsonrpc'') \<and> JSONRPCIdSchema (map_of kvs ''id'')
      then (case map_of kvs ''error'' of
              None \<Rightarrow> Some (JObj (pick [''jsonrpc'', ''id'', ''result''] kvs))
            | Some e \<Rightarrow>
                (case JSONRPCErrorSchema e of
                   None \<Rightarrow> None
                 | Some e' \<Rightarrow> Some (JObj (pick [''jsonrpc'', ''id'', ''result''] kvs @ [(''error'', e')]))))
      else None)"
| "JSONRPCResponseObject _ = None"

definition JSONRPCResponseSchema :: "json \<Rightarrow> json option" where
  "JSONRPCResponseSchema v =
     (case JSONRPCResponseObject v of
        None \<Rightarrow> None
      | Some d \<Rightarrow> if Boolean (getProp d ''result'') \<noteq> Boolean (getProp d ''error'') then Some d else None)"

fun JSONRPCNotificationSchema :: "json \<Rightarrow> json option" where
  "JSONRPCNotificationSchema (JObj kvs) =
     (if JSONRPCVersionSchema (map_of kvs ''jsonrpc'') \<and> isString (map_of kvs ''method'')
      then Some (JObj (pick [''jsonrpc'', ''method'', ''params''] kvs)) else None)"
| "JSONRPCNotificationSchema _ = None"

text \<open>A union returns what its first accepting member returns.\<close>

definition orElse :: "'a option \<Rightarrow> 'a option \<Rightarrow> 'a option" where
  "orElse a b = (case a of None \<Rightarrow> b | Some x \<Rightarrow> Some x)"

definition batchEntry :: "json \<Rightarrow> json option" where
  "batchEntry v = orElse (JSONRPCRequestSchema v) (JSONRPCNotificationSchema v)"

fun parseAll :: "('a \<Rightarrow> 'b option) \<Rightarrow> 'a list \<Rightarrow> 'b list option" where
  "parseAll f [] = Some []"
| "parseAll f (x # xs) =
     (case f x of
        None \<Rightarrow> None
      | Some y \<Rightarrow> (case parseAll f xs of None \<Rightarrow> None | Some ys \<Rightarrow> Some (y # ys)))"

fun JSONRPCBatchSchema :: "json \<Rightarrow> json option" where
  "JSONRPCBatchSchema (JArr xs) =
     (case parseAll batchEntry xs of
        None \<Rightarrow> None
      | Some ys \<Rightarrow> if 1 \<le> length ys then Some (JArr ys) else None)"
| "JSONRPCBatchSchema _ = None"

definition JSONRPCMessageSchema :: "json \<Rightarrow> json option" where
  "JSONRPCMessageSchema v =
     orElse (JSONRPCRequestSchema v)
       (orElse (JSONRPCResponseSchema v)
          (orElse (JSONRPCNotificationSchema v) (JSONRPCBatchSchema v)))"

text \<open>\<^verbatim>\<open>createJSONRPCError\<close> and the helpers built on it.\<close>

definition createJSONRPCError :: "int \<Rightarrow> string \<Rightarrow> json option \<Rightarrow> json" where
  "createJSONRPCError code message data =
     JObj ([(''code'', JNum code), (''message'', JStr message)]
           @ (case data of None \<Rightarrow> [] | Some d \<Rightarrow> [(''data'', d)]))"

definition createParseError :: "json option \<Rightarrow> json" where
  "createParseError data = createJSONRPCError (- 32700) ''Parse error'' data"

definition createInvalidRequest :: "json option \<Rightarrow> json" where
  "createInvalidRequest data = createJSONRPCError (- 32600) ''Invalid Request'' data"

definition createInternalError :: "json option \<Rightarrow> json" where
  "createInternalError data = createJSONRPCError (- 32603) ''Internal error'' data"

definition createServerError :: "string \<Rightarrow> json option \<Rightarrow> json" where
  "createServerError message data = createJSONRPCError (- 32000) message data"

section \<open>Transport codec (src/transport/streamable-http.ts)\<close>

text \<open>\<^verbatim>\<open>parseRequest\<close>: the parsed message, or \<open>None\<close> for JavaScript's \<^verbatim>\<open>null\<close>.\<close>

definition parseRequest :: "json \<Rightarrow> json option" where
  "parseRequest body = JSONRPCMessageSchema body"

section \<open>Errors\<close>

text \<open>
  Every \<^verbatim>\<open>throw\<close> of the code is a value; \<open>String_error\<close> is \<^verbatim>\<open>String(error)\<close>. A spawn
  error is the operating system's: \<open>SpawnFailed\<close> carries its text.
\<close>

datatype error =
    ProcessExists string
  | AlreadyRunning
  | SpawnFailed string
  | FailedToStart
  | NotRunning
  | StdinNotAvailable
  | MaxSessions nat
  | UnknownEndpoint string
  | SessionIdRequired
  | SessionNotFound string
  | NoProcessAttached
  | SessionTerminated
  | ResponseTimeout json
  | TypeError

fun templateId :: "json \<Rightarrow> string" where
  "templateId (JStr s) = s"
| "templateId (JNum n) = String_int n"
| "templateId JNull = ''null''"
| "templateId v = stringify v"

fun String_error :: "error \<Rightarrow> string" where
  "String_error (ProcessExists p) = ''Error: Process '' @ p @ '' already exists''"
| "String_error AlreadyRunning = ''Error: Process is already running''"
| "String_error (SpawnFailed t) = t"
| "String_error FailedToStart = ''Error: Process failed to start''"
| "String_error NotRunning = ''Error: Process is not running''"
| "String_error StdinNotAvailable = ''Error: Process stdin is not available''"
| "String_error (MaxSessions n) = ''Error: Maximum session limit ('' @ String_nat n @ '') reached''"
| "String_error (UnknownEndpoint e) = ''Error: Unknown server endpoint: '' @ e"
| "String_error SessionIdRequired = ''Error: Session ID required for non-initialize requests''"
| "String_error (SessionNotFound s) = ''Error: Session not found: '' @ s"
| "String_error NoProcessAttached = ''Error: No process attached to session''"
| "String_error SessionTerminated = ''Error: Session terminated while waiting for response''"
| "String_error (ResponseTimeout i) = ''Error: Response timeout for request '' @ templateId i"
| "String_error TypeError = ''TypeError: Cannot use 'in' operator to search for 'serverInfo' in null''"

section \<open>Supervised processes (src/process/manager.ts, class ManagedProcess)\<close>

record server_config =
  name :: string
  command :: string
  args :: "string list"
  cwd :: "string option"
  endpoint :: "string option"

datatype status = Stopped | Running | Crashed

text \<open>
  The child process as far as the supervisor touches it: the chunks written to its stdin
  stream and the signals sent to it. \<^verbatim>\<open>ChildProcess.stdin\<close> may be \<^verbatim>\<open>null\<close>: \<open>None\<close> is a
  child without stdin stream.
\<close>

record child_process =
  stdin :: "string list option"
  signals :: "string list"

record managed_process =
  mp_id :: string
  config :: server_config
  process :: "child_process option"
  startedAt :: "int option"
  restarts :: nat
  status :: status
  stdoutBuffer :: string
  stderrBuffer :: string

definition ManagedProcess :: "string \<Rightarrow> server_config \<Rightarrow> managed_process" where
  "ManagedProcess i c =
     \<lparr>mp_id = i, config = c, process = None, startedAt = None, restarts = 0,
      status = Stopped, stdoutBuffer = [], stderrBuffer = []\<rparr>"

text \<open>
  What the operating system does with a spawned child during the 500 ms start window is
  an input: the child is still alive, the spawn raised an error event (\<open>SpawnError\<close>
  carries \<^verbatim>\<open>String(error)\<close>), or the child exited with a code.
\<close>

datatype start_outcome = Alive | SpawnError string | Exited int

text \<open>
  The listeners that \<open>start\<close> puts on the child: \<^verbatim>\<open>error\<close> marks the handle crashed, \<^verbatim>\<open>exit\<close>
  marks it stopped for the code 0 and crashed for any other code (\<open>None\<close> is the \<^verbatim>\<open>null\<close> code
  of a child ended by a signal).
\<close>

definition processError :: "managed_process \<Rightarrow> managed_process" where
  "processError mp = mp\<lparr>status := Crashed\<rparr>"

definition processExit :: "int option \<Rightarrow> managed_process \<Rightarrow> managed_process" where
  "processExit code mp = mp\<lparr>status := (if code = Some 0 then Stopped else Crashed)\<rparr>"

text \<open>
  \<open>start\<close> spawns the child with \<^verbatim>\<open>stdio: ['pipe', 'pipe', 'pipe']\<close>, so the child has a stdin
  stream, with nothing written to it yet.
\<close>

definition start :: "start_outcome \<Rightarrow> int \<Rightarrow> managed_process \<Rightarrow> managed_process \<times> error option" where
  "start outcome now mp =
     (if process mp \<noteq> None \<and> status mp = Running then (mp, Some AlreadyRunning)
      else
        (let spawned = mp\<lparr>process := Some \<lparr>stdin = Some [], signals = []\<rparr>,
                           startedAt := Some now, status := Running\<rparr>
         in case outcome of
              Alive \<Rightarrow> (spawned, None)
            | SpawnError t \<Rightarrow> (processError spawned, Some (SpawnFailed t))
            | Exited code \<Rightarrow> (processExit (Some code) spawned, Some FailedToStart)))"

definition kill :: "string \<Rightarrow> managed_process \<Rightarrow> managed_process" where
  "kill signal mp =
     (case process mp of
        None \<Rightarrow> mp
      | Some p \<Rightarrow>
          if status mp = Running
          then mp\<lparr>process := Some (p\<lparr>signals := signals p @ [signal]\<rparr>), status := Stopped\<rparr>
          else mp)"

text \<open>\<open>restart\<close>: \<^verbatim>\<open>this.kill(); this.restarts++; await this.start()\<close>.\<close>

definition restart :: "start_outcome \<Rightarrow> int \<Rightarrow> managed_process \<Rightarrow> managed_process \<times> error option" where
  "restart outcome now mp =
     (let killed = kill ''SIGTERM'' mp
      in start outcome now (killed\<lparr>restarts := restarts killed + 1\<rparr>))"

definition sendToStdin :: "string \<Rightarrow> managed_process \<Rightarrow> error + managed_process" where
  "sendToStdin data mp =
     (case process mp of
        None \<Rightarrow> Inl NotRunning
      | Some p \<Rightarrow>
          if status mp \<noteq> Running then Inl NotRunning
          else (case stdin p of
                  None \<Rightarrow> Inl StdinNotAvailable
                | Some written \<Rightarrow>
                    (let w1 = written @ [data];
                         w2 = (if \<not> endsWith data [CHR 0x0A] then w1 @ [[CHR 0x0A]] else w1)
                     in Inr (mp\<lparr>process := Some (p\<lparr>stdin := Some w2\<rparr>)\<rparr>))))"

definition isRunning :: "managed_process \<Rightarrow> bool" where
  "isRunning mp = (status mp = Running \<and> process mp \<noteq> None)"

text \<open>The bytes a child has received on stdin so far.\<close>

definition stdinBytes :: "managed_process \<Rightarrow> string" where
  "stdinBytes mp = (case process mp of None \<Rightarrow> [] | Some p \<Rightarrow> (case stdin p of None \<Rightarrow> [] | Some w \<Rightarrow> concat w))"

section \<open>The server's state\<close>

text \<open>
  An SSE event (types/index.ts) and what has been written to an express
  \<^verbatim>\<open>Response\<close>: a comment line, an event (its bytes are \<open>formatSSEEvent\<close> of it) or a
  JSON body.
\<close>

record sse_event =
  eid :: "string option"
  event :: "string option"
  data :: string
  retry :: "nat option"

datatype frame = Comment string | Event sse_event | Body json

record response =
  statusCode :: nat
  headers :: "(string \<times> string) list"
  frames :: "frame list"
  ended :: bool

record session =
  sid :: string
  createdAt :: int
  lastActivityAt :: int
  serverConfig :: server_config
  stdioProcess :: "nat option"
  messageQueue :: "json list"
  isInitialized :: bool
  sseConnections :: "nat list"

record transport =
  batchTimeout :: int
  sessionHeader :: string
  maxEventSize :: nat
  eventCounter :: nat

text \<open>
  One state for the whole server. A JavaScript \<^verbatim>\<open>Map\<close> is an association list in
  insertion order. \<open>ManagedProcess\<close> and \<open>Response\<close> objects are shared by reference
  (a session and the supervisor hold the same process object), so they live in stores
  keyed by address, and a session names its process and its SSE sinks by address.
  \<^item> \<open>sessions\<close>, \<open>sessionTimeout\<close>, \<open>maxSessions\<close>: the \<open>SessionManager\<close>;
  \<^item> \<open>processes\<close>: the \<open>ProcessManager\<close>'s map from process id to process object;
  \<^item> \<open>serverConfigs\<close>, \<open>proxyTransport\<close>, \<open>isShuttingDown\<close>: the \<open>MCPProxyServer\<close>;
  \<^item> \<open>httpTransport\<close>: the \<open>HTTPServer\<close>'s own transport instance.
\<close>

record state =
  sessions :: "(string \<times> session) list"
  sessionTimeout :: int
  maxSessions :: nat
  processes :: "(string \<times> nat) list"
  objects :: "(nat \<times> managed_process) list"
  responseObjects :: "(nat \<times> response) list"
  serverConfigs :: "(string \<times> server_config) list"
  proxyTransport :: transport
  httpTransport :: transport
  isShuttingDown :: bool

text \<open>The \<open>StreamableHTTPTransport\<close> constructor.\<close>

definition StreamableHTTPTransport :: "int \<Rightarrow> string option \<Rightarrow> nat option \<Rightarrow> transport" where
  "StreamableHTTPTransport bt sh mes =
     \<lparr>batchTimeout = bt,
      sessionHeader = (case sh of None \<Rightarrow> ''Mcp-Session-Id'' | Some h \<Rightarrow> if h = [] then ''Mcp-Session-Id'' else h),
      maxEventSize = (case mes of None \<Rightarrow> 1024 * 64 | Some n \<Rightarrow> if n = 0 then 1024 * 64 else n),
      eventCounter = 0\<rparr>"

text \<open>\<^verbatim>\<open>options.maxSessions || 100\<close> of the \<open>SessionManager\<close> constructor.\<close>

definition maxSessionsOption :: "nat option \<Rightarrow> nat" where
  "maxSessionsOption opt = (case opt of None \<Rightarrow> 100 | Some n \<Rightarrow> if n = 0 then 100 else n)"

text \<open>
  \<^verbatim>\<open>new HTTPServer(config)\<close>: it builds the \<open>MCPProxyServer\<close> (which builds its managers
  and its transport) and a second transport of its own.
\<close>

definition endpointOf :: "server_config \<Rightarrow> string" where
  "endpointOf c = (case endpoint c of None \<Rightarrow> CHR ''/'' # name c | Some e \<Rightarrow> if e = [] then CHR ''/'' # name c else e)"

definition HTTPServer :: "int \<Rightarrow> int \<Rightarrow> server_config list \<Rightarrow> state" where
  "HTTPServer timeout bt servers =
     \<lparr>sessions = [], sessionTimeout = timeout, maxSessions = maxSessionsOption (Some 100),
      processes = [], objects = [], responseObjects = [],
      serverConfigs = fold (\<lambda>c m. AList.update (endpointOf c) c m) servers [],
      proxyTransport = StreamableHTTPTransport bt (Some ''Mcp-Session-Id'') None,
      httpTransport = StreamableHTTPTransport bt None None,
      isShuttingDown = False\<rparr>"

subsection \<open>Response objects\<close>

text \<open>An address the store does not hold yet is a fresh \<open>Response\<close>.\<close>

definition freshResponse :: response where
  "freshResponse = \<lparr>statusCode = 200, headers = [], frames = [], ended = False\<rparr>"

definition theResponse :: "state \<Rightarrow> nat \<Rightarrow> response" where
  "theResponse st r = (case map_of (responseObjects st) r of None \<Rightarrow> freshResponse | Some x \<Rightarrow> x)"

definition onResponse :: "(response \<Rightarrow> response) \<Rightarrow> nat \<Rightarrow> state \<Rightarrow> state" where
  "onResponse f r st = st\<lparr>responseObjects := AList.update r (f (theResponse st r)) (responseObjects st)\<rparr>"

text \<open>\<^verbatim>\<open>res.write\<close>: a write after \<^verbatim>\<open>end\<close> reaches nobody.\<close>

definition writeFrame :: "frame \<Rightarrow> response \<Rightarrow> response" where
  "writeFrame f r = (if ended r then r else r\<lparr>frames := frames r @ [f]\<rparr>)"

definition endResponse :: "nat \<Rightarrow> state \<Rightarrow> state" where
  "endResponse r st = onResponse (\<lambda>x. x\<lparr>ended := True\<rparr>) r st"

definition setHeader :: "string \<Rightarrow> string \<Rightarrow> response \<Rightarrow> response" where
  "setHeader k v r = r\<lparr>headers := AList.update k v (headers r)\<rparr>"

subsection \<open>Process manager (class ProcessManager)\<close>

text \<open>
  \<open>spawnProcess\<close> allocates the process object at the first free address. The restart
  bookkeeping of the supervisor (\<^verbatim>\<open>restartAttempts\<close>, \<^verbatim>\<open>handleProcessCrash\<close>) is left out: no
  operation below reads it.
\<close>

definition freshAddress :: "state \<Rightarrow> nat" where
  "freshAddress st = fold (\<lambda>kv a. max a (Suc (fst kv))) (objects st) 0"

definition spawnProcess :: "start_outcome \<Rightarrow> int \<Rightarrow> string \<Rightarrow> server_config \<Rightarrow> state \<Rightarrow> state \<times> (error + nat)" where
  "spawnProcess outcome now processId cfg st =
     (if map_of (processes st) processId \<noteq> None then (st, Inl (ProcessExists processId))
      else
        (let a = freshAddress st in
         case start outcome now (ManagedProcess processId cfg) of
           (mp, Some e) \<Rightarrow> (st\<lparr>objects := AList.update a mp (objects st)\<rparr>, Inl e)
         | (mp, None) \<Rightarrow>
             (st\<lparr>objects := AList.update a mp (objects st),
                 processes := AList.update processId a (processes st)\<rparr>, Inr a)))"

definition onObject :: "(managed_process \<Rightarrow> managed_process) \<Rightarrow> nat \<Rightarrow> state \<Rightarrow> state" where
  "onObject f a st = st\<lparr>objects := map (\<lambda>kv. if fst kv = a then (a, f (snd kv)) else kv) (objects st)\<rparr>"

definition killProcess :: "string \<Rightarrow> state \<Rightarrow> state" where
  "killProcess processId st =
     (case map_of (processes st) processId of
        None \<Rightarrow> st
      | Some a \<Rightarrow> (onObject (kill ''SIGTERM'') a st)\<lparr>processes := AList.delete processId (processes st)\<rparr>)"

definition killAllProcesses :: "state \<Rightarrow> state" where
  "killAllProcesses st = fold killProcess (map fst (processes st)) st"

text \<open>\<^verbatim>\<open>session.stdioProcess.id\<close>\<close>

definition processIdOf :: "state \<Rightarrow> nat \<Rightarrow> string option" where
  "processIdOf st a = map_option mp_id (map_of (objects st) a)"

subsection \<open>Session manager (src/session/manager.ts)\<close>

definition isSessionExpired :: "state \<Rightarrow> int \<Rightarrow> session \<Rightarrow> bool" where
  "isSessionExpired st now s =
     (if sessionTimeout st \<le> 0 then False else now - lastActivityAt s > sessionTimeout st)"

definition onSession :: "(session \<Rightarrow> session) \<Rightarrow> string \<Rightarrow> state \<Rightarrow> state" where
  "onSession f sessionId st =
     (case map_of (sessions st) sessionId of
        None \<Rightarrow> st
      | Some s \<Rightarrow> st\<lparr>sessions := AList.update sessionId (f s) (sessions st)\<rparr>)"

definition updateSessionActivity :: "int \<Rightarrow> string \<Rightarrow> state \<Rightarrow> state" where
  "updateSessionActivity now sessionId st = onSession (\<lambda>s. s\<lparr>lastActivityAt := now\<rparr>) sessionId st"

definition hasSession :: "string \<Rightarrow> state \<Rightarrow> bool" where
  "hasSession sessionId st = (map_of (sessions st) sessionId \<noteq> None)"

text \<open>
  \<open>destroySession\<close> emits \<^verbatim>\<open>session:destroyed\<close> after it has removed the session; the
  listener, registered by \<open>MCPProxyServer.setupEventHandlers\<close>, looks the session up
  with \<open>getSession\<close>, and \<open>getSession\<close> destroys a session it finds expired. The three
  call one another, so they are defined together. \<open>now\<close> is \<^verbatim>\<open>Date.now()\<close>.
\<close>

function destroySession :: "int \<Rightarrow> string \<Rightarrow> state \<Rightarrow> state"
  and sessionDestroyed :: "int \<Rightarrow> string \<Rightarrow> state \<Rightarrow> state"
  and getSession :: "int \<Rightarrow> string \<Rightarrow> state \<Rightarrow> state \<times> session option"
where
  "destroySession now sessionId st =
     (case map_of (sessions st) sessionId of
        None \<Rightarrow> st
      | Some s \<Rightarrow>
          sessionDestroyed now sessionId
            ((fold endResponse (sseConnections s) st)
               \<lparr>sessions := AList.delete sessionId (sessions st)\<rparr>))"
| "sessionDestroyed now sessionId st =
     (case getSession now sessionId st of
        (st', None) \<Rightarrow> st'
      | (st', Some s) \<Rightarrow>
          (case stdioProcess s of
             None \<Rightarrow> st'
           | Some a \<Rightarrow> (case processIdOf st' a of None \<Rightarrow> st' | Some p \<Rightarrow> killProcess p st')))"
| "getSession now sessionId st =
     (case map_of (sessions st) sessionId of
        None \<Rightarrow> (st, None)
      | Some s \<Rightarrow>
          if isSessionExpired st now s then (destroySession now sessionId st, None)
          else (updateSessionActivity now sessionId st, Some (s\<lparr>lastActivityAt := now\<rparr>)))"
  by pat_completeness auto

termination
proof (relation "measure (\<lambda>x. case x of
          Inl (now, sessionId, st) \<Rightarrow> 3 * length (sessions st)
        | Inr (Inl (now, sessionId, st)) \<Rightarrow> 3 * length (sessions st) + 2
        | Inr (Inr (now, sessionId, st)) \<Rightarrow> 3 * length (sessions st) + 1)")
  show "wf (measure (\<lambda>x. case x of
          Inl (now, sessionId, st) \<Rightarrow> 3 * length (sessions st)
        | Inr (Inl (now, sessionId, st)) \<Rightarrow> 3 * length (sessions st) + 2
        | Inr (Inr (now, sessionId, st)) \<Rightarrow> 3 * length (sessions st) + 1))"
    by simp
next
  fix now :: int and sessionId :: string and st :: state and s :: session
  assume "map_of (sessions st) sessionId = Some s"
  then have "(sessionId, s) \<in> set (sessions st)"
    by (rule map_of_SomeD)
  then have "length (AList.delete sessionId (sessions st)) < length (sessions st)"
    unfolding AList.delete_eq by (intro length_filter_less[where x = "(sessionId, s)"]) auto
  then show "(Inr (Inl (now, sessionId,
                 (fold endResponse (sseConnections s) st)
                   \<lparr>sessions := AList.delete sessionId (sessions st)\<rparr>)),
              Inl (now, sessionId, st))
             \<in> measure (\<lambda>x. case x of
                   Inl (now, sessionId, st) \<Rightarrow> 3 * length (sessions st)
                 | Inr (Inl (now, sessionId, st)) \<Rightarrow> 3 * length (sessions st) + 2
                 | Inr (Inr (now, sessionId, st)) \<Rightarrow> 3 * length (sessions st) + 1)"
    by simp
qed simp_all

declare destroySession.simps [simp del] sessionDestroyed.simps [simp del] getSession.simps [simp del]

text \<open>The listener of \<^verbatim>\<open>session:expired\<close> (\<open>MCPProxyServer.handleSessionExpired\<close>).\<close>

definition handleSessionExpired :: "int \<Rightarrow> string \<Rightarrow> state \<Rightarrow> state" where
  "handleSessionExpired now sessionId st =
     (case getSession now sessionId st of
        (st', None) \<Rightarrow> st'
      | (st', Some s) \<Rightarrow>
          (case stdioProcess s of
             None \<Rightarrow> st'
           | Some a \<Rightarrow> (case processIdOf st' a of None \<Rightarrow> st' | Some p \<Rightarrow> killProcess p st')))"

text \<open>
  \<open>cleanupExpiredSessions\<close>: the expired ids are collected first; then, for each,
  \<^verbatim>\<open>session:expired\<close> is emitted and the session is destroyed.
\<close>

definition expireSession :: "int \<Rightarrow> string \<Rightarrow> state \<Rightarrow> state" where
  "expireSession now sessionId st = destroySession now sessionId (handleSessionExpired now sessionId st)"

definition cleanupExpiredSessions :: "int \<Rightarrow> state \<Rightarrow> state" where
  "cleanupExpiredSessions now st =
     (let expired = map fst (filter (\<lambda>kv. isSessionExpired st now (snd kv)) (sessions st))
      in fold (expireSession now) expired st)"

text \<open>\<open>uuid\<close> is what \<^verbatim>\<open>randomUUID()\<close> returns.\<close>

definition newSession :: "int \<Rightarrow> string \<Rightarrow> server_config \<Rightarrow> nat option \<Rightarrow> state \<Rightarrow> state \<times> (error + session)" where
  "newSession now uuid cfg proc st =
     (let s = \<lparr>sid = uuid, createdAt = now, lastActivityAt = now, serverConfig = cfg,
               stdioProcess = proc, messageQueue = [], isInitialized = False,
               sseConnections = []\<rparr>
      in (st\<lparr>sessions := AList.update uuid s (sessions st)\<rparr>, Inr s))"

definition createSession :: "int \<Rightarrow> string \<Rightarrow> server_config \<Rightarrow> nat option \<Rightarrow> state \<Rightarrow> state \<times> (error + session)" where
  "createSession now uuid cfg proc st =
     (if maxSessions st \<le> length (sessions st)
      then (let st1 = cleanupExpiredSessions now st
            in if maxSessions st1 \<le> length (sessions st1)
               then (st1, Inl (MaxSessions (maxSessions st1)))
               else newSession now uuid cfg proc st1)
      else newSession now uuid cfg proc st)"

definition setSessionInitialized :: "string \<Rightarrow> state \<Rightarrow> state" where
  "setSessionInitialized sessionId st = onSession (\<lambda>s. s\<lparr>isInitialized := True\<rparr>) sessionId st"

definition attachProcess :: "string \<Rightarrow> nat \<Rightarrow> state \<Rightarrow> state" where
  "attachProcess sessionId a st = onSession (\<lambda>s. s\<lparr>stdioProcess := Some a\<rparr>) sessionId st"

text \<open>\<^verbatim>\<open>Set.add\<close> and \<^verbatim>\<open>Set.delete\<close> on a set kept in insertion order.\<close>

definition setAdd :: "'a \<Rightarrow> 'a list \<Rightarrow> 'a list" where
  "setAdd x xs = (if x \<in> set xs then xs else xs @ [x])"

definition addSSEConnection :: "string \<Rightarrow> nat \<Rightarrow> state \<Rightarrow> state" where
  "addSSEConnection sessionId res st =
     onSession (\<lambda>s. s\<lparr>sseConnections := setAdd res (sseConnections s)\<rparr>) sessionId st"

definition removeSSEConnection :: "string \<Rightarrow> nat \<Rightarrow> state \<Rightarrow> state" where
  "removeSSEConnection sessionId res st =
     onSession (\<lambda>s. s\<lparr>sseConnections := removeAll res (sseConnections s)\<rparr>) sessionId st"

definition getActiveSSEConnections :: "string \<Rightarrow> state \<Rightarrow> nat list" where
  "getActiveSSEConnections sessionId st =
     (case map_of (sessions st) sessionId of None \<Rightarrow> [] | Some s \<Rightarrow> sseConnections s)"

fun isObject :: "json \<Rightarrow> bool" where
  "isObject (JObj kvs) = True"
| "isObject (JArr xs) = True"
| "isObject _ = False"

definition queueMessage :: "string \<Rightarrow> json \<Rightarrow> state \<Rightarrow> state" where
  "queueMessage sessionId message st =
     (if isObject message
      then onSession (\<lambda>s. s\<lparr>messageQueue := messageQueue s @ [message]\<rparr>) sessionId st
      else st)"

definition dequeueMessages :: "string \<Rightarrow> state \<Rightarrow> json list \<times> state" where
  "dequeueMessages sessionId st =
     (case map_of (sessions st) sessionId of
        None \<Rightarrow> ([], st)
      | Some s \<Rightarrow> (messageQueue s, onSession (\<lambda>s. s\<lparr>messageQueue := []\<rparr>) sessionId st))"

text \<open>\<open>SessionManager.shutdown\<close>: every session is destroyed, then the listeners are removed.\<close>

definition shutdownSessions :: "int \<Rightarrow> state \<Rightarrow> state" where
  "shutdownSessions now st = fold (destroySession now) (map fst (sessions st)) st"

section \<open>Streamable HTTP transport (src/transport/streamable-http.ts)\<close>

record request =
  httpMethod :: string
  reqHeaders :: "(string \<times> string) list"
  body :: json

definition toLowerCase :: "string \<Rightarrow> string" where
  "toLowerCase s =
     map (\<lambda>c. case map_of (zip ''ABCDEFGHIJKLMNOPQRSTUVWXYZ'' ''abcdefghijklmnopqrstuvwxyz'') c of
                 None \<Rightarrow> c
               | Some l \<Rightarrow> l) s"

definition acceptsSSE :: "request \<Rightarrow> bool" where
  "acceptsSSE req =
     (case map_of (reqHeaders req) ''accept'' of None \<Rightarrow> False | Some a \<Rightarrow> js_includes a ''text/event-stream'')"

text \<open>A header that is present but empty is falsy wherever the code tests \<^verbatim>\<open>!sessionId\<close>.\<close>

definition getSessionId :: "transport \<Rightarrow> request \<Rightarrow> string option" where
  "getSessionId t req = map_of (reqHeaders req) (toLowerCase (sessionHeader t))"

definition setSessionId :: "transport \<Rightarrow> string \<Rightarrow> response \<Rightarrow> response" where
  "setSessionId t sessionId r = setHeader (sessionHeader t) sessionId r"

text \<open>
  \<^verbatim>\<open>res.json(data)\<close> of express sets the content type to \<^verbatim>\<open>application/json\<close> unless one is
  set and hands the text to \<^verbatim>\<open>res.send\<close>, which sets the charset of the content type to
  \<^verbatim>\<open>utf-8\<close>, writes the body and ends the response. \<open>setCharset\<close> is written for the content
  types that reach it here, which have no parameter other than a charset.
\<close>

definition setCharset :: "string \<Rightarrow> string" where
  "setCharset t = takeWhile (\<lambda>c. c \<noteq> CHR 0x3B) t @ ''; charset=utf-8''"

definition resJson :: "json \<Rightarrow> response \<Rightarrow> response" where
  "resJson v r =
     (let r1 = (if map_of (headers r) ''Content-Type'' = None
                then setHeader ''Content-Type'' ''application/json'' r else r);
          r2 = (case map_of (headers r1) ''Content-Type'' of
                  None \<Rightarrow> r1
                | Some t \<Rightarrow> setHeader ''Content-Type'' (setCharset t) r1)
      in (writeFrame (Body v) r2)\<lparr>ended := True\<rparr>)"

definition sendJSON :: "json \<Rightarrow> nat \<Rightarrow> response \<Rightarrow> response" where
  "sendJSON v code r = resJson v (setHeader ''Content-Type'' ''application/json'' (r\<lparr>statusCode := code\<rparr>))"

definition sendAccepted :: "transport \<Rightarrow> string option \<Rightarrow> response \<Rightarrow> response" where
  "sendAccepted t sessionId r =
     ((case sessionId of
         None \<Rightarrow> r
       | Some x \<Rightarrow> if x = [] then r else setSessionId t x r)\<lparr>statusCode := 202, ended := True\<rparr>)"

definition sendError :: "json \<Rightarrow> nat \<Rightarrow> response \<Rightarrow> response" where
  "sendError err code r =
     sendJSON (JObj [(''jsonrpc'', JStr ''2.0''), (''id'', JNull), (''error'', err)]) code r"

text \<open>
  \<open>initSSE\<close>: the head and the first comment. The keep-alive timer it starts only writes
  comments and is not followed further.
\<close>

definition initSSE :: "transport \<Rightarrow> string option \<Rightarrow> response \<Rightarrow> response" where
  "initSSE t sessionId r =
     writeFrame (Comment ''ok'')
       (r\<lparr>statusCode := 200,
          headers := fold (\<lambda>kv h. AList.update (fst kv) (snd kv) h)
            ([(''Content-Type'', ''text/event-stream''),
              (''Cache-Control'', ''no-cache, no-transform''),
              (''Connection'', ''keep-alive''),
              (''X-Accel-Buffering'', ''no'')]
             @ (case sessionId of
                  None \<Rightarrow> []
                | Some x \<Rightarrow> if x = [] then [] else [(sessionHeader t, x)]))
            (headers r)\<rparr>)"

definition formatSSEEvent :: "sse_event \<Rightarrow> string" where
  "formatSSEEvent e =
     (case eid e of None \<Rightarrow> [] | Some i \<Rightarrow> if i = [] then [] else ''id: '' @ i @ [CHR 0x0A])
     @ (case event e of None \<Rightarrow> [] | Some n \<Rightarrow> if n = [] then [] else ''event: '' @ n @ [CHR 0x0A])
     @ (case retry e of None \<Rightarrow> [] | Some n \<Rightarrow> if n = 0 then [] else ''retry: '' @ String_nat n @ [CHR 0x0A])
     @ concat (map (\<lambda>line. ''data: '' @ line @ [CHR 0x0A]) (split (CHR 0x0A) (data e)))
     @ [CHR 0x0A]"

text \<open>The bytes of a frame on the wire.\<close>

fun wire :: "frame \<Rightarrow> string" where
  "wire (Comment c) = CHR '':'' # c @ [CHR 0x0A, CHR 0x0A]"
| "wire (Event e) = formatSSEEvent e"
| "wire (Body v) = stringify v"

definition sendSSEEvent :: "nat \<Rightarrow> sse_event \<Rightarrow> state \<Rightarrow> state" where
  "sendSSEEvent res e st = onResponse (writeFrame (Event e)) res st"

text \<open>
  Two transports exist, each with an \<open>eventCounter\<close> of its own: \<open>OfProxy\<close> is
  \<open>MCPProxyServer.transport\<close>, \<open>OfHTTPServer\<close> is \<open>HTTPServer.transport\<close>.
\<close>

datatype owner = OfProxy | OfHTTPServer

fun getTransport :: "owner \<Rightarrow> state \<Rightarrow> transport" where
  "getTransport OfProxy st = proxyTransport st"
| "getTransport OfHTTPServer st = httpTransport st"

fun setTransport :: "owner \<Rightarrow> transport \<Rightarrow> state \<Rightarrow> state" where
  "setTransport OfProxy t st = st\<lparr>proxyTransport := t\<rparr>"
| "setTransport OfHTTPServer t st = st\<lparr>httpTransport := t\<rparr>"

definition messageEvent :: "nat \<Rightarrow> json \<Rightarrow> sse_event" where
  "messageEvent n message =
     \<lparr>eid = Some (String_nat n), event = Some ''message'', data = stringify message, retry = None\<rparr>"

definition sendSSEMessage :: "owner \<Rightarrow> nat \<Rightarrow> json \<Rightarrow> state \<Rightarrow> state" where
  "sendSSEMessage w res message st =
     (let t = getTransport w st;
          n = eventCounter t + 1
      in sendSSEEvent res (messageEvent n message) (setTransport w (t\<lparr>eventCounter := n\<rparr>) st))"

definition requiresResponse :: "json \<Rightarrow> bool" where
  "requiresResponse message = (hasKey ''id'' message \<and> getProp message ''id'' \<noteq> Some JNull)"

definition isInitializeRequest :: "json \<Rightarrow> bool" where
  "isInitializeRequest message = (getProp message ''method'' = Some (JStr ''initialize''))"

definition isInitializedNotification :: "json \<Rightarrow> bool" where
  "isInitializedNotification message =
     (getProp message ''method'' = Some (JStr ''notifications/initialized'') \<and> \<not> hasKey ''id'' message)"

definition validateContentType :: "request \<Rightarrow> nat \<Rightarrow> state \<Rightarrow> bool \<times> state" where
  "validateContentType req res st =
     (if httpMethod req \<noteq> ''POST'' then (True, st)
      else if (case map_of (reqHeaders req) ''content-type'' of
                 None \<Rightarrow> False | Some c \<Rightarrow> js_includes c ''application/json'')
      then (True, st)
      else (False,
            onResponse (\<lambda>r. resJson (JObj [(''error'', JStr ''Unsupported Media Type''),
                                            (''expected'', JStr ''application/json'')])
                               (r\<lparr>statusCode := 415\<rparr>)) res st))"

definition validTypes :: "string list" where
  "validTypes = [''application/json'', ''text/event-stream'', ''*/*'']"

definition validateAcceptHeader :: "request \<Rightarrow> nat \<Rightarrow> state \<Rightarrow> bool \<times> state" where
  "validateAcceptHeader req res st =
     (case (case map_of (reqHeaders req) ''accept'' of
              None \<Rightarrow> None | Some a \<Rightarrow> if a = [] then None else Some a) of
        None \<Rightarrow>
          (False,
           onResponse (\<lambda>r. resJson (JObj [(''error'', JStr ''Not Acceptable''),
                                           (''message'', JStr ''Accept header required'')])
                              (r\<lparr>statusCode := 406\<rparr>)) res st)
      | Some a \<Rightarrow>
          if list_ex (js_includes a) validTypes then (True, st)
          else (False,
                onResponse (\<lambda>r. resJson (JObj [(''error'', JStr ''Not Acceptable''),
                                                (''supported'', JArr (map JStr validTypes))])
                                   (r\<lparr>statusCode := 406\<rparr>)) res st))"

section \<open>Proxy core (class MCPProxyServer)\<close>

text \<open>
  \<open>isInitializeResponse\<close>: \<^verbatim>\<open>typeof null\<close> is \<^verbatim>\<open>'object'\<close>, so a \<^verbatim>\<open>null\<close> result reaches
  \<^verbatim>\<open>'serverInfo' in null\<close>, which throws.
\<close>

definition isInitializeResponse :: "json \<Rightarrow> error + bool" where
  "isInitializeResponse message =
     (if hasKey ''result'' message
      then (case getProp message ''result'' of
              Some JNull \<Rightarrow> Inl TypeError
            | Some (JObj kvs) \<Rightarrow> Inr (map_of kvs ''serverInfo'' \<noteq> None)
            | _ \<Rightarrow> Inr False)
      else Inr False)"

definition findSessionByProcessId :: "string \<Rightarrow> state \<Rightarrow> session option" where
  "findSessionByProcessId processId st =
     find (\<lambda>s. case stdioProcess s of
                 None \<Rightarrow> False
               | Some a \<Rightarrow> processIdOf st a = Some processId)
          (map snd (sessions st))"

definition routeProcessMessage :: "string \<Rightarrow> json \<Rightarrow> state \<Rightarrow> error + state" where
  "routeProcessMessage sessionId message st =
     (if \<not> hasSession sessionId st then Inr st
      else
        (case isInitializeResponse message of
           Inl e \<Rightarrow> Inl e
         | Inr b \<Rightarrow>
             (let st1 = (if b then setSessionInitialized sessionId st else st);
                  st2 = queueMessage sessionId message st1
              in Inr (fold (\<lambda>connection. sendSSEMessage OfProxy connection message)
                        (getActiveSSEConnections sessionId st2) st2))))"

text \<open>
  \<open>handleProcessOutput\<close> receives a stdout line; the line is given by what
  \<^verbatim>\<open>JSON.parse\<close> makes of it (\<open>None\<close> when it throws). Whatever is thrown inside is
  caught and logged.
\<close>

definition handleProcessOutput :: "string \<Rightarrow> json option \<Rightarrow> state \<Rightarrow> state" where
  "handleProcessOutput processId parsed st =
     (case parsed of
        None \<Rightarrow> st
      | Some message \<Rightarrow>
          (case JSONRPCMessageSchema message of
             None \<Rightarrow> st
           | Some validated \<Rightarrow>
               (case findSessionByProcessId processId st of
                  None \<Rightarrow> st
                | Some s \<Rightarrow>
                    (case routeProcessMessage (sid s) validated st of
                       Inl e \<Rightarrow> st
                     | Inr st' \<Rightarrow> st'))))"

definition createSessionWithProcess :: "start_outcome \<Rightarrow> int \<Rightarrow> string \<Rightarrow> server_config \<Rightarrow> state \<Rightarrow> state \<times> (error + session)" where
  "createSessionWithProcess outcome now uuid cfg st =
     (case createSession now uuid cfg None st of
        (st1, Inl e) \<Rightarrow> (st1, Inl e)
      | (st1, Inr s) \<Rightarrow>
          (case spawnProcess outcome now (''session-'' @ sid s) cfg st1 of
             (st2, Inl e) \<Rightarrow> (destroySession now (sid s) st2, Inl e)
           | (st2, Inr a) \<Rightarrow> (attachProcess (sid s) a st2, Inr (s\<lparr>stdioProcess := Some a\<rparr>))))"

definition isResponseFor :: "json \<Rightarrow> json \<Rightarrow> bool" where
  "isResponseFor message req =
     (hasKey ''id'' message \<and> getProp message ''id'' = getProp req ''id''
      \<and> (hasKey ''result'' message \<or> hasKey ''error'' message))"

section \<open>HTTP front end: the handlers that run to completion (class HTTPServer)\<close>

definition handleSSERequest :: "int \<Rightarrow> string \<Rightarrow> request \<Rightarrow> nat \<Rightarrow> state \<Rightarrow> state" where
  "handleSSERequest now serverEndpoint req res st =
     (if \<not> acceptsSSE req
      then onResponse (\<lambda>r. resJson (JObj [(''error'', JStr ''Not Acceptable''),
                                          (''message'', JStr ''Accept: text/event-stream required'')])
                             (r\<lparr>statusCode := 406\<rparr>)) res st
      else
        (case getSessionId (httpTransport st) req of
           None \<Rightarrow>
             onResponse (\<lambda>r. resJson (JObj [(''error'', JStr ''Session ID required for SSE connection'')])
                                (r\<lparr>statusCode := 400\<rparr>)) res st
         | Some sessionId \<Rightarrow>
             if sessionId = []
             then onResponse (\<lambda>r. resJson (JObj [(''error'', JStr ''Session ID required for SSE connection'')])
                                    (r\<lparr>statusCode := 400\<rparr>)) res st
             else
               (case getSession now sessionId st of
                  (st1, None) \<Rightarrow>
                    onResponse (\<lambda>r. resJson (JObj [(''error'', JStr ''Session not found'')])
                                       (r\<lparr>statusCode := 404\<rparr>)) res st1
                | (st1, Some s) \<Rightarrow>
                    (let st2 = onResponse (initSSE (httpTransport st1) (Some sessionId)) res st1;
                         st3 = addSSEConnection sessionId res st2
                     in case dequeueMessages sessionId st3 of
                          (queued, st4) \<Rightarrow>
                            fold (\<lambda>message. sendSSEMessage OfHTTPServer res message) queued st4))))"

definition handleDeleteSession :: "int \<Rightarrow> request \<Rightarrow> nat \<Rightarrow> state \<Rightarrow> state" where
  "handleDeleteSession now req res st =
     (case getSessionId (httpTransport st) req of
        None \<Rightarrow>
          onResponse (\<lambda>r. resJson (JObj [(''error'', JStr ''Session ID required'')])
                             (r\<lparr>statusCode := 400\<rparr>)) res st
      | Some sessionId \<Rightarrow>
          if sessionId = []
          then onResponse (\<lambda>r. resJson (JObj [(''error'', JStr ''Session ID required'')])
                                 (r\<lparr>statusCode := 400\<rparr>)) res st
          else onResponse (\<lambda>r. r\<lparr>statusCode := 204, ended := True\<rparr>) res
                 (destroySession now sessionId st))"

text \<open>\<open>findSessionFromResponse\<close> is a placeholder in the source: it returns \<^verbatim>\<open>null\<close>.\<close>

definition findSessionFromResponse :: "json \<Rightarrow> string option" where
  "findSessionFromResponse response = None"

section \<open>What happens while a request waits\<close>

text \<open>
  \<open>handleRequest\<close> suspends while it polls for the response. What runs in between is a
  sequence of handlers that run to completion: a stdout line of a subprocess, a GET that
  attaches an SSE stream, a DELETE, the cleanup timer.
\<close>

datatype event =
    StdoutData string "json option"
  | SSERequest string request nat
  | DeleteRequest request nat
  | CleanupTimer

fun applyEvent :: "int \<Rightarrow> event \<Rightarrow> state \<Rightarrow> state" where
  "applyEvent now (StdoutData processId parsed) st = handleProcessOutput processId parsed st"
| "applyEvent now (SSERequest serverEndpoint req res) st = handleSSERequest now serverEndpoint req res st"
| "applyEvent now (DeleteRequest req res) st = handleDeleteSession now req res st"
| "applyEvent now CleanupTimer st = cleanupExpiredSessions now st"

text \<open>
  The inputs of one \<open>handleRequest\<close> call that the code does not choose: the clock when
  the call starts, the identifier \<^verbatim>\<open>randomUUID()\<close> returns, what the spawned child does
  in its start window, and the events that run between check \<open>k\<close> and check \<open>k + 1\<close> of
  \<open>waitForResponse\<close>.
\<close>

record world =
  clock :: int
  uuid :: string
  outcome :: start_outcome
  arrivals :: "nat \<Rightarrow> event list"

text \<open>
  The loop of \<open>checkForResponse\<close>: a message of the queue that is not the awaited
  response is queued again; the scan stops at the response.
\<close>

fun scanMessages :: "json \<Rightarrow> string \<Rightarrow> json list \<Rightarrow> state \<Rightarrow> state \<times> json option" where
  "scanMessages req sessionId [] st = (st, None)"
| "scanMessages req sessionId (msg # msgs) st =
     (if isResponseFor msg req then (st, Some msg)
      else scanMessages req sessionId msgs (queueMessage sessionId msg st))"

text \<open>
  \<open>checkForResponse\<close> runs at \<open>startTime\<close> and then every \<open>checkInterval\<close> = 100 ms, so
  check \<open>k\<close> reads the clock \<open>startTime + 100 * k\<close>; \<open>timeout\<close> is 30000 ms.
\<close>

definition checkInterval :: int where
  "checkInterval = 100"

definition timeout :: int where
  "timeout = 30000"

function checkForResponse :: "(nat \<Rightarrow> event list) \<Rightarrow> int \<Rightarrow> string \<Rightarrow> json \<Rightarrow> nat \<Rightarrow> state \<Rightarrow> state \<times> (error + json)" where
  "checkForResponse arr startTime sessionId req k st =
     (if \<not> hasSession sessionId st then (st, Inl SessionTerminated)
      else
        (case dequeueMessages sessionId st of
           (messages, st1) \<Rightarrow>
             (case scanMessages req sessionId messages st1 of
                (st2, Some msg) \<Rightarrow> (st2, Inr msg)
              | (st2, None) \<Rightarrow>
                  if checkInterval * int k > timeout
                  then (st2, Inl (ResponseTimeout (case getProp req ''id'' of None \<Rightarrow> JNull | Some i \<Rightarrow> i)))
                  else checkForResponse arr startTime sessionId req (Suc k)
                         (fold (applyEvent (startTime + checkInterval * int (Suc k))) (arr k) st2))))"
  by pat_completeness auto
termination
  by (relation "measure (\<lambda>(arr, startTime, sessionId, req, k, st). 301 - k)")
     (auto simp: checkInterval_def timeout_def)

declare checkForResponse.simps [simp del]

definition waitForResponse :: "(nat \<Rightarrow> event list) \<Rightarrow> int \<Rightarrow> string \<Rightarrow> json \<Rightarrow> state \<Rightarrow> state \<times> (error + json)" where
  "waitForResponse arr startTime sessionId req st = checkForResponse arr startTime sessionId req 0 st"

section \<open>Proxy core: requests\<close>

text \<open>
  The part of \<open>handleRequest\<close> after the session is known: the message is written to the
  stdin of the session's process object, and a message with a non-null id waits for
  its response. A session's address always names an object of the store (objects are
  never removed).
\<close>

definition forward :: "world \<Rightarrow> int \<Rightarrow> session \<Rightarrow> string \<Rightarrow> json \<Rightarrow> state \<Rightarrow> state \<times> (error + json option)" where
  "forward W startTime s sessionId message st =
     (case stdioProcess s of
        None \<Rightarrow> (st, Inl NoProcessAttached)
      | Some a \<Rightarrow>
          (case map_of (objects st) a of
             None \<Rightarrow> (st, Inl NoProcessAttached)
           | Some mp \<Rightarrow>
               (case sendToStdin (stringify message) mp of
                  Inl e \<Rightarrow> (st, Inl e)
                | Inr mp' \<Rightarrow>
                    (let st1 = onObject (\<lambda>_. mp') a st
                     in if requiresResponse message
                        then (case waitForResponse (arrivals W) startTime sessionId message st1 of
                                (st2, Inl e) \<Rightarrow> (st2, Inl e)
                              | (st2, Inr r) \<Rightarrow> (st2, Inr (Some r)))
                        else (st1, Inr None)))))"

definition startWindow :: int where
  "startWindow = 500"

text \<open>The \<^verbatim>\<open>try\<close> block of \<open>handleRequest\<close>; \<open>Inl\<close> is what it throws.\<close>

definition handleRequestTry :: "world \<Rightarrow> string option \<Rightarrow> json \<Rightarrow> string \<Rightarrow> state \<Rightarrow> state \<times> (error + json option)" where
  "handleRequestTry W sessionId message serverEndpoint st =
     (if isInitializeRequest message
      then (case map_of (serverConfigs st) serverEndpoint of
              None \<Rightarrow> (st, Inl (UnknownEndpoint serverEndpoint))
            | Some cfg \<Rightarrow>
                (case createSessionWithProcess (outcome W) (clock W) (uuid W) cfg st of
                   (st1, Inl e) \<Rightarrow> (st1, Inl e)
                 | (st1, Inr s) \<Rightarrow> forward W (clock W + startWindow) s (sid s) message st1))
      else (case sessionId of
              None \<Rightarrow> (st, Inl SessionIdRequired)
            | Some i \<Rightarrow>
                if i = [] then (st, Inl SessionIdRequired)
                else (case getSession (clock W) i st of
                        (st1, None) \<Rightarrow> (st1, Inl (SessionNotFound i))
                      | (st1, Some s) \<Rightarrow> forward W (clock W) s i message st1)))"

definition errorResponse :: "json \<Rightarrow> error \<Rightarrow> json" where
  "errorResponse message e =
     JObj [(''jsonrpc'', JStr ''2.0''),
           (''id'', (case getProp message ''id'' of None \<Rightarrow> JNull | Some i \<Rightarrow> i)),
           (''error'', createInternalError (Some (JStr (String_error e))))]"

text \<open>
  \<open>handleRequest\<close>: the \<^verbatim>\<open>catch\<close> turns an error into a JSON-RPC error response when the
  message has an \<^verbatim>\<open>id\<close> key and throws it again otherwise. \<open>Inr None\<close> is \<^verbatim>\<open>null\<close>.
\<close>

definition handleRequest :: "world \<Rightarrow> string option \<Rightarrow> json \<Rightarrow> string \<Rightarrow> state \<Rightarrow> state \<times> (error + json option)" where
  "handleRequest W sessionId message serverEndpoint st =
     (case handleRequestTry W sessionId message serverEndpoint st of
        (st', Inl e) \<Rightarrow>
          if hasKey ''id'' message then (st', Inr (Some (errorResponse message e)))
          else (st', Inl e)
      | (st', Inr r) \<Rightarrow> (st', Inr r))"

fun isArray :: "json \<Rightarrow> bool" where
  "isArray (JArr xs) = True"
| "isArray _ = False"

text \<open>
  \<open>handleBatch\<close>: the \<^verbatim>\<open>for\<close> loop with its accumulator \<open>responses\<close>; entry \<open>i\<close> runs in
  the world \<open>Ws i\<close>.
\<close>

fun batchLoop :: "(nat \<Rightarrow> world) \<Rightarrow> nat \<Rightarrow> string option \<Rightarrow> string \<Rightarrow> json list \<Rightarrow> json list \<Rightarrow> state \<Rightarrow> state \<times> json list" where
  "batchLoop Ws i sessionId serverEndpoint [] responses st = (st, responses)"
| "batchLoop Ws i sessionId serverEndpoint (message # rest) responses st =
     (case handleRequest (Ws i) sessionId message serverEndpoint st of
        (st', Inr (Some response)) \<Rightarrow>
          batchLoop Ws (Suc i) sessionId serverEndpoint rest
            (if \<not> isArray response then responses @ [response] else responses) st'
      | (st', Inr None) \<Rightarrow> batchLoop Ws (Suc i) sessionId serverEndpoint rest responses st'
      | (st', Inl e) \<Rightarrow>
          batchLoop Ws (Suc i) sessionId serverEndpoint rest
            (if hasKey ''id'' message then responses @ [errorResponse message e] else responses) st')"

definition handleBatch :: "(nat \<Rightarrow> world) \<Rightarrow> string option \<Rightarrow> json list \<Rightarrow> string \<Rightarrow> state \<Rightarrow> state \<times> json list" where
  "handleBatch Ws sessionId messages serverEndpoint st =
     batchLoop Ws 0 sessionId serverEndpoint messages [] st"

text \<open>\<open>MCPProxyServer.shutdown\<close>\<close>

definition shutdown :: "int \<Rightarrow> state \<Rightarrow> state" where
  "shutdown now st =
     (if isShuttingDown st then st
      else killAllProcesses (shutdownSessions now (st\<lparr>isShuttingDown := True\<rparr>)))"

section \<open>HTTP front end: POST (HTTPServer.handleMCPRequest)\<close>

text \<open>The response mode, once the proxy has returned \<open>response\<close> (\<open>None\<close> is \<^verbatim>\<open>null\<close>).\<close>

definition respond :: "request \<Rightarrow> nat \<Rightarrow> string option \<Rightarrow> json \<Rightarrow> json option \<Rightarrow> state \<Rightarrow> state" where
  "respond req res sessionId message response st =
     (let isBatch = isArray message;
          isInitialize = isInitializeRequest (case message of JArr (m # ms) \<Rightarrow> m | _ \<Rightarrow> message)
      in case response of
           None \<Rightarrow> onResponse (sendAccepted (httpTransport st) sessionId) res st
         | Some r \<Rightarrow>
             if acceptsSSE req \<and> \<not> isBatch
             then endResponse res
                    (sendSSEMessage OfHTTPServer res r
                       (onResponse (initSSE (httpTransport st) sessionId) res st))
             else
               (let st1 = (if isInitialize \<and> \<not> isArray r \<and> hasKey ''id'' r
                           then (case findSessionFromResponse r of
                                   None \<Rightarrow> st
                                 | Some x \<Rightarrow>
                                     if x = [] then st
                                     else onResponse (setSessionId (httpTransport st) x) res st)
                           else st)
                in onResponse (sendJSON r 200) res st1))"

definition handleMCPRequest :: "(nat \<Rightarrow> world) \<Rightarrow> string \<Rightarrow> request \<Rightarrow> nat \<Rightarrow> state \<Rightarrow> state" where
  "handleMCPRequest Ws serverEndpoint req res st =
     (case validateContentType req res st of
        (False, st1) \<Rightarrow> st1
      | (True, st1) \<Rightarrow>
          (case validateAcceptHeader req res st1 of
             (False, st2) \<Rightarrow> st2
           | (True, st2) \<Rightarrow>
               (let sessionId = getSessionId (httpTransport st2) req
                in case parseRequest (body req) of
                     None \<Rightarrow> onResponse (sendError (createParseError None) 400) res st2
                   | Some message \<Rightarrow>
                       (case message of
                          JArr messages \<Rightarrow>
                            (case handleBatch Ws sessionId messages serverEndpoint st2 of
                               (st3, responses) \<Rightarrow>
                                 respond req res sessionId message (Some (JArr responses)) st3)
                        | _ \<Rightarrow>
                            (case handleRequest (Ws 0) sessionId message serverEndpoint st2 of
                               (st3, Inl e) \<Rightarrow>
                                 onResponse (sendError (createServerError (String_error e) None) 500) res st3
                             | (st3, Inr response) \<Rightarrow>
                                 respond req res sessionId message response st3)))))"

section \<open>Observations and concrete inputs\<close>

text \<open>The child of the handle, when it has one, has a stdin stream.\<close>

definition piped :: "managed_process \<Rightarrow> bool" where
  "piped mp = (case process mp of None \<Rightarrow> True | Some p \<Rightarrow> stdin p \<noteq> None)"

text \<open>The JSON-RPC error code of a response that carries one JSON body.\<close>

definition responseErrorCode :: "response \<Rightarrow> json option" where
  "responseErrorCode r =
     (case frames r of
        [Body v] \<Rightarrow> (case getProp v ''error'' of None \<Rightarrow> None | Some e \<Rightarrow> getProp e ''code'')
      | _ \<Rightarrow> None)"

text \<open>The configuration of the integration test: one echo server, reached at \<^verbatim>\<open>/echo\<close>.\<close>

definition echoConfig :: server_config where
  "echoConfig = \<lparr>name = ''echo'', command = ''node'', args = [], cwd = None, endpoint = None\<rparr>"

definition server0 :: state where
  "server0 = HTTPServer 60000 1000 [echoConfig]"

definition quiet :: world where
  "quiet = \<lparr>clock = 0, uuid = ''u1'', outcome = Alive, arrivals = (\<lambda>k. [])\<rparr>"

definition emptyBatchPost :: request where
  "emptyBatchPost =
     \<lparr>httpMethod = ''POST'',
      reqHeaders = [(''content-type'', ''application/json''), (''accept'', ''application/json'')],
      body = JArr []\<rparr>"

text \<open>A handle just started.\<close>

definition startedHandle :: managed_process where
  "startedHandle = fst (start Alive 0 (ManagedProcess ''p'' echoConfig))"

text \<open>The sessions of the registry that have not expired at \<open>now\<close>.\<close>

definition liveSessions :: "int \<Rightarrow> state \<Rightarrow> (string \<times> session) list" where
  "liveSessions now st = filter (\<lambda>kv. \<not> isSessionExpired st now (snd kv)) (sessions st)"

text \<open>The registry holds no more sessions than its limit allows.\<close>

definition withinLimit :: "state \<Rightarrow> bool" where
  "withinLimit st = (length (sessions st) \<le> maxSessions st)"

text \<open>From \<open>st\<close> to \<open>st'\<close> the limit is kept and the number of sessions has not grown.\<close>

definition shrinks :: "state \<Rightarrow> state \<Rightarrow> bool" where
  "shrinks st st' = (maxSessions st' = maxSessions st \<and> length (sessions st') \<le> length (sessions st))"

text \<open>A registry with room for one session, holding one session created at time 0.\<close>

definition fullServer :: state where
  "fullServer = fst (createSession 0 ''a'' echoConfig None (server0\<lparr>maxSessions := 1\<rparr>))"

text \<open>The test server after one session \<open>u1\<close> has been created with its subprocess.\<close>

definition server1 :: state where
  "server1 = fst (createSessionWithProcess Alive 0 ''u1'' echoConfig server0)"

definition deleteRequest :: request where
  "deleteRequest = \<lparr>httpMethod = ''DELETE'', reqHeaders = [(''mcp-session-id'', ''u1'')], body = JObj []\<rparr>"



definition eventIds :: "response \<Rightarrow> string list" where
  "eventIds r = List.map_filter (\<lambda>f. case f of Event e \<Rightarrow> eid e | _ \<Rightarrow> None) (frames r)"


text \<open>
  A GET that attaches an SSE stream to session \<open>u1\<close>, a notification of the subprocess,
  the shapes of the session, of an open stream and of a transport in the states below,
  and two runs: a stream attaches, a message arrives, a second stream attaches; and a
  message arrives, a stream attaches, a second message arrives.
\<close>

definition getRequest :: request where
  "getRequest = \<lparr>httpMethod = ''GET'',
     reqHeaders = [(''accept'', ''text/event-stream''), (''mcp-session-id'', ''u1'')], body = JObj []\<rparr>"

definition notification :: "string \<Rightarrow> json" where
  "notification n = JObj [(''jsonrpc'', JStr ''2.0''), (''method'', JStr n)]"

definition sessionU1 :: "int \<Rightarrow> json list \<Rightarrow> bool \<Rightarrow> nat list \<Rightarrow> session" where
  "sessionU1 t q i cs =
     \<lparr>sid = ''u1'', createdAt = 0, lastActivityAt = t, serverConfig = echoConfig,
      stdioProcess = Some 0, messageQueue = q, isInitialized = i, sseConnections = cs\<rparr>"

definition openStream :: "frame list \<Rightarrow> response" where
  "openStream fs =
     \<lparr>statusCode = 200,
      headers = [(''Content-Type'', ''text/event-stream''), (''Cache-Control'', ''no-cache, no-transform''),
                 (''Connection'', ''keep-alive''), (''X-Accel-Buffering'', ''no''),
                 (''Mcp-Session-Id'', ''u1'')],
      frames = fs, ended = False\<rparr>"

definition transportAt :: "nat \<Rightarrow> transport" where
  "transportAt n = \<lparr>batchTimeout = 1000, sessionHeader = ''Mcp-Session-Id'', maxEventSize = 65536, eventCounter = n\<rparr>"


definition queued1 :: state where
  "queued1 = handleProcessOutput ''session-u1'' (Some (notification ''a'')) server1"
definition attachedQ :: state where
  "attachedQ = handleSSERequest 1 ''/echo'' getRequest 7 queued1"
definition pushedQ :: state where
  "pushedQ = handleProcessOutput ''session-u1'' (Some (notification ''b'')) attachedQ"

text \<open>
  The batch as the specification words it: \<open>entryOutcomes\<close> are the results that
  \<open>handleRequest\<close> gives to the entries, in input order, each entry running in the state
  that the entries before it left (\<open>stateAfter\<close> is the state the last one leaves), and
  \<open>responseOf\<close> is the response an outcome contributes: none for \<^verbatim>\<open>null\<close> and none for an
  error thrown.
\<close>

fun entryOutcomes :: "(nat \<Rightarrow> world) \<Rightarrow> nat \<Rightarrow> string option \<Rightarrow> string \<Rightarrow> json list \<Rightarrow> state \<Rightarrow> (error + json option) list" where
  "entryOutcomes Ws i sessionId serverEndpoint [] st = []"
| "entryOutcomes Ws i sessionId serverEndpoint (message # rest) st =
     snd (handleRequest (Ws i) sessionId message serverEndpoint st)
     # entryOutcomes Ws (Suc i) sessionId serverEndpoint rest
         (fst (handleRequest (Ws i) sessionId message serverEndpoint st))"

fun stateAfter :: "(nat \<Rightarrow> world) \<Rightarrow> nat \<Rightarrow> string option \<Rightarrow> string \<Rightarrow> json list \<Rightarrow> state \<Rightarrow> state" where
  "stateAfter Ws i sessionId serverEndpoint [] st = st"
| "stateAfter Ws i sessionId serverEndpoint (message # rest) st =
     stateAfter Ws (Suc i) sessionId serverEndpoint rest
       (fst (handleRequest (Ws i) sessionId message serverEndpoint st))"

definition responseOf :: "error + json option \<Rightarrow> json option" where
  "responseOf out = (case out of Inl e \<Rightarrow> None | Inr r \<Rightarrow> r)"

text \<open>
  An initialize request, the response of the echo subprocess to it, a request that needs
  a session, a world in which the subprocess answers before the second check, the
  initialize request as a POST, and the server after that request.
\<close>

definition initializeRequest :: json where
  "initializeRequest =
     JObj [(''jsonrpc'', JStr ''2.0''), (''id'', JStr ''i1''), (''method'', JStr ''initialize'')]"

definition initializeResponse :: json where
  "initializeResponse =
     JObj [(''jsonrpc'', JStr ''2.0''), (''id'', JStr ''i1''),
           (''result'', JObj [(''serverInfo'', JObj [(''name'', JStr ''echo'')])])]"

definition toolsList :: json where
  "toolsList = JObj [(''jsonrpc'', JStr ''2.0''), (''id'', JNum 2), (''method'', JStr ''tools/list'')]"





definition echoWorld :: world where
  "echoWorld =
     \<lparr>clock = 0, uuid = ''u1'', outcome = Alive,
      arrivals = (\<lambda>k. if k = 0 then [StdoutData ''session-u1'' (Some initializeResponse)] else [])\<rparr>"

definition initializePost :: request where
  "initializePost =
     \<lparr>httpMethod = ''POST'',
      reqHeaders = [(''content-type'', ''application/json''), (''accept'', ''application/json'')],
      body = initializeRequest\<rparr>"

definition initialized :: state where
  "initialized = fst (handleRequest echoWorld None initializeRequest ''/echo'' server0)"

section \<open>Properties of the transport codec\<close>

lemma parseRequest_empty_batch: "parseRequest (JArr []) = None"
  by (simp add: parseRequest_def JSONRPCMessageSchema_def JSONRPCResponseSchema_def orElse_def)

text \<open>
  C4. For an object with \<^verbatim>\<open>jsonrpc: "2.0"\<close>, an id and no method, the claim says that the
  codec accepts it exactly when one of \<^verbatim>\<open>result\<close> and \<^verbatim>\<open>error\<close> is present, whatever the
  result value. The refinement of the response schema compares \<^verbatim>\<open>Boolean(data.result)\<close>
  with \<^verbatim>\<open>Boolean(data.error)\<close>, so the code refuses a response whose only member is a
  falsy result (\<open>0\<close>, \<open>false\<close>, \<open>null\<close>, the empty string), and accepts a response that has
  both an error and a falsy result.
\<close>

theorem parseRequest_falsy_result:
  "parseRequest (JObj [(''jsonrpc'', JStr ''2.0''), (''id'', JNum 1), (''result'', JNum 0)]) = None
   \<and> parseRequest (JObj [(''jsonrpc'', JStr ''2.0''), (''id'', JNum 1), (''result'', JBool False)]) = None
   \<and> parseRequest (JObj [(''jsonrpc'', JStr ''2.0''), (''id'', JNum 1), (''result'', JNull)]) = None
   \<and> parseRequest (JObj [(''jsonrpc'', JStr ''2.0''), (''id'', JNum 1), (''result'', JStr [])]) = None
   \<and> parseRequest (JObj [(''jsonrpc'', JStr ''2.0''), (''id'', JNum 1), (''result'', JNum 0),
                          (''error'', JObj [(''code'', JNum 1), (''message'', JStr ''x'')])])
       = Some (JObj [(''jsonrpc'', JStr ''2.0''), (''id'', JNum 1), (''result'', JNum 0),
                     (''error'', JObj [(''code'', JNum 1), (''message'', JStr ''x'')])])"
  by (simp add: parseRequest_def JSONRPCMessageSchema_def JSONRPCResponseSchema_def orElse_def
      JSONRPCVersionSchema_def pick_def List.map_filter_def)

section \<open>Properties of the HTTP front end\<close>

lemma theResponse_onResponse: "theResponse (onResponse f r st) r = f (theResponse st r)"
  by (simp add: theResponse_def onResponse_def AList.update_conv')

lemmas sendError_defs = sendError_def sendJSON_def resJson_def setCharset_def setHeader_def Let_def
  writeFrame_def createParseError_def createJSONRPCError_def freshResponse_def

lemma handleMCPRequest_empty_batch:
  assumes "map_of (reqHeaders req) ''content-type'' = Some c" and "js_includes c ''application/json''"
    and "map_of (reqHeaders req) ''accept'' = Some a" and "list_ex (js_includes a) validTypes"
    and "body req = JArr []"
  shows "handleMCPRequest Ws ep req res st = onResponse (sendError (createParseError None) 400) res st"
proof -
  have "a \<noteq> []" using assms(4) by (auto simp: validTypes_def)
  then show ?thesis using assms
    by (simp add: handleMCPRequest_def validateContentType_def validateAcceptHeader_def
        parseRequest_empty_batch)
qed

text \<open>
  C6 (as amended). A POST whose content type and accept header pass validation and whose
  body is the empty array is answered, on a fresh response, with status 400 and the
  JSON-RPC error of code \<open>-32700\<close> (parse error) and id \<^verbatim>\<open>null\<close>: the code has one error for
  every body the codec refuses.
\<close>

theorem empty_batch_parse_error:
  assumes "map_of (reqHeaders req) ''content-type'' = Some c" and "js_includes c ''application/json''"
    and "map_of (reqHeaders req) ''accept'' = Some a" and "list_ex (js_includes a) validTypes"
    and "body req = JArr []"
    and "map_of (responseObjects st) res = None"
  shows "theResponse (handleMCPRequest Ws ep req res st) res =
           \<lparr>statusCode = 400, headers = [(''Content-Type'', ''application/json; charset=utf-8'')],
            frames = [Body (JObj [(''jsonrpc'', JStr ''2.0''), (''id'', JNull),
                                  (''error'', JObj [(''code'', JNum (- 32700)),
                                                    (''message'', JStr ''Parse error'')])])],
            ended = True\<rparr>"
proof -
  have "theResponse (handleMCPRequest Ws ep req res st) res
        = sendError (createParseError None) 400 (theResponse st res)"
    by (simp only: handleMCPRequest_empty_batch[OF assms(1-5)] theResponse_onResponse)
  moreover have "theResponse st res = freshResponse"
    using assms(6) by (simp add: theResponse_def)
  ultimately show ?thesis
    by (simp add: sendError_defs)
qed

theorem empty_batch_parse_error_witness:
  "responseErrorCode (theResponse (handleMCPRequest (\<lambda>i. quiet) ''/echo'' emptyBatchPost 0 server0) 0)
     = Some (JNum (- 32700))"
proof -
  have "theResponse (handleMCPRequest (\<lambda>i. quiet) ''/echo'' emptyBatchPost 0 server0) 0 =
           \<lparr>statusCode = 400, headers = [(''Content-Type'', ''application/json; charset=utf-8'')],
            frames = [Body (JObj [(''jsonrpc'', JStr ''2.0''), (''id'', JNull),
                                  (''error'', JObj [(''code'', JNum (- 32700)),
                                                    (''message'', JStr ''Parse error'')])])],
            ended = True\<rparr>"
    by (rule empty_batch_parse_error[where c = "''application/json''" and a = "''application/json''"])
       (simp_all add: emptyBatchPost_def validTypes_def server0_def HTTPServer_def)
  then show ?thesis
    by (simp add: responseErrorCode_def)
qed

text \<open>
  C6 as stated fails: the empty array posted to \<^verbatim>\<open>/echo\<close> of the test server is not answered
  with the invalid-request code \<open>-32600\<close>.
\<close>

theorem empty_batch_counterexample:
  "responseErrorCode (theResponse (handleMCPRequest (\<lambda>i. quiet) ''/echo'' emptyBatchPost 0 server0) 0)
     \<noteq> Some (JNum (- 32600))"
proof -
  have "handleMCPRequest (\<lambda>i. quiet) ''/echo'' emptyBatchPost 0 server0
        = onResponse (sendError (createParseError None) 400) 0 server0"
    by (rule handleMCPRequest_empty_batch[where c = "''application/json''" and a = "''application/json''"])
       (simp_all add: emptyBatchPost_def validTypes_def)
  then have "theResponse (handleMCPRequest (\<lambda>i. quiet) ''/echo'' emptyBatchPost 0 server0) 0
        = sendError (createParseError None) 400 (theResponse server0 0)"
    by (simp only: theResponse_onResponse)
  moreover have "theResponse server0 0 = freshResponse"
    by (simp add: theResponse_def server0_def HTTPServer_def)
  ultimately show ?thesis
    by (simp add: sendError_defs responseErrorCode_def)
qed

section \<open>Properties of the process supervisor\<close>

text \<open>
  C9. The handles of the program are the ones its constructor makes and \<open>start\<close>,
  \<open>restart\<close>, \<open>kill\<close>, \<open>sendToStdin\<close> and the listeners of the child's \<^verbatim>\<open>error\<close> and \<^verbatim>\<open>exit\<close>
  events change: nothing else assigns \<^verbatim>\<open>process\<close> or \<^verbatim>\<open>status\<close>. Each of them has a child
  with a stdin stream whenever it has a child (\<open>piped\<close>), since every child is spawned
  with three pipes. On such a handle a write fails with an error when the handle is not
  running or has no child (the handle is left as it was: the result carries no new
  handle); otherwise it succeeds, leaves the handle running, and adds to the bytes on
  stdin the string, followed by a line feed exactly when the string does not end with one.
\<close>

theorem sendToStdin_cases:
  "piped (ManagedProcess i cfg)
   \<and> (piped mp \<longrightarrow>
         piped (fst (start oc now mp)) \<and> piped (fst (restart oc now mp)) \<and> piped (kill sig mp)
         \<and> piped (processError mp) \<and> piped (processExit code mp)
         \<and> (\<forall>mp'. sendToStdin d mp = Inr mp' \<longrightarrow> piped mp'))
   \<and> (piped mp \<longrightarrow>
         (status mp \<noteq> Running \<or> process mp = None \<longrightarrow> (\<exists>e. sendToStdin d mp = Inl e))
         \<and> (status mp = Running \<and> process mp \<noteq> None \<longrightarrow>
               (\<exists>mp'. sendToStdin d mp = Inr mp' \<and> status mp' = Running \<and>
                  stdinBytes mp' = stdinBytes mp @ d @ (if endsWith d [CHR 0x0A] then [] else [CHR 0x0A]))))"
proof -
  have made: "piped (ManagedProcess i cfg)"
    by (simp add: piped_def ManagedProcess_def)
  have started: "piped (fst (start oc' now' mp'))" if "piped mp'" for oc' now' mp'
    using that
    by (cases oc') (simp_all add: piped_def start_def processError_def processExit_def Let_def)
  have killed: "piped (kill sig' mp')" if "piped mp'" for sig' mp'
    using that by (simp add: piped_def kill_def split: option.splits)
  have restarted: "piped (fst (restart oc now mp))" if "piped mp"
  proof -
    have "piped ((kill ''SIGTERM'' mp)\<lparr>restarts := restarts (kill ''SIGTERM'' mp) + 1\<rparr>)"
      using killed[OF that, of "''SIGTERM''"] by (simp add: piped_def)
    then show ?thesis
      unfolding restart_def Let_def by (rule started)
  qed
  have listeners: "piped (processError mp) \<and> piped (processExit code mp)" if "piped mp"
    using that by (simp add: piped_def processError_def processExit_def)
  have written: "\<forall>mp'. sendToStdin d mp = Inr mp' \<longrightarrow> piped mp'"
    by (auto simp: piped_def sendToStdin_def Let_def split: option.splits if_splits)
  have sent: "(status mp \<noteq> Running \<or> process mp = None \<longrightarrow> (\<exists>e. sendToStdin d mp = Inl e))
         \<and> (status mp = Running \<and> process mp \<noteq> None \<longrightarrow>
               (\<exists>mp'. sendToStdin d mp = Inr mp' \<and> status mp' = Running \<and>
                  stdinBytes mp' = stdinBytes mp @ d @ (if endsWith d [CHR 0x0A] then [] else [CHR 0x0A])))"
    if "piped mp"
    using that
    by (auto simp: piped_def sendToStdin_def stdinBytes_def Let_def split: option.splits)
  from made started[of mp oc now] restarted killed[of mp sig] listeners written sent
  show ?thesis
    by blast
qed

theorem sendToStdin_cases_witness:
  "piped startedHandle
   \<and> status startedHandle = Running \<and> process startedHandle \<noteq> None
   \<and> (\<exists>mp'. sendToStdin ''{}'' startedHandle = Inr mp' \<and> piped mp' \<and> status mp' = Running
          \<and> stdinBytes mp' = ''{}'' @ [CHR 0x0A])
   \<and> piped (ManagedProcess ''p'' echoConfig)
   \<and> process (ManagedProcess ''p'' echoConfig) = None
   \<and> (\<exists>e. sendToStdin ''{}'' (ManagedProcess ''p'' echoConfig) = Inl e)
   \<and> piped (kill ''SIGTERM'' startedHandle)
   \<and> status (kill ''SIGTERM'' startedHandle) \<noteq> Running
   \<and> (\<exists>e. sendToStdin ''{}'' (kill ''SIGTERM'' startedHandle) = Inl e)"
  using sendToStdin_cases[of "''p''" echoConfig startedHandle Alive 0 "''SIGTERM''" None "''{}''"]
    sendToStdin_cases[of "''p''" echoConfig "ManagedProcess ''p'' echoConfig" Alive 0 "''SIGTERM''" None "''{}''"]
    sendToStdin_cases[of "''p''" echoConfig "kill ''SIGTERM'' startedHandle" Alive 0 "''SIGTERM''" None "''{}''"]
  by (simp add: startedHandle_def start_def ManagedProcess_def piped_def stdinBytes_def
      sendToStdin_def kill_def endsWith_def Let_def)

section \<open>Properties of the session registry\<close>

lemma fold_endResponse_frame [simp]:
  "sessions (fold endResponse cs st) = sessions st"
  "processes (fold endResponse cs st) = processes st"
  "objects (fold endResponse cs st) = objects st"
  "maxSessions (fold endResponse cs st) = maxSessions st"
  "sessionTimeout (fold endResponse cs st) = sessionTimeout st"
  by (induction cs arbitrary: st) (simp_all add: endResponse_def onResponse_def)

lemma sessionDestroyed_absent:
  "map_of (sessions st) sessionId = None \<Longrightarrow> sessionDestroyed now sessionId st = st"
  by (simp add: sessionDestroyed.simps getSession.simps)

text \<open>
  When the listener of \<^verbatim>\<open>session:destroyed\<close> runs, the session is no longer in the map, so
  the listener finds nothing to kill: \<open>destroySession\<close> only ends the streams and removes
  the entry.
\<close>

lemma destroySession_eq:
  "destroySession now sessionId st =
     (case map_of (sessions st) sessionId of
        None \<Rightarrow> st
      | Some s \<Rightarrow> (fold endResponse (sseConnections s) st)\<lparr>sessions := AList.delete sessionId (sessions st)\<rparr>)"
  by (simp add: destroySession.simps sessionDestroyed_absent AList.delete_conv' split: option.splits)

lemma destroySession_frame [simp]:
  "processes (destroySession now sessionId st) = processes st"
  "objects (destroySession now sessionId st) = objects st"
  "maxSessions (destroySession now sessionId st) = maxSessions st"
  "sessionTimeout (destroySession now sessionId st) = sessionTimeout st"
  by (simp_all add: destroySession_eq split: option.splits)

lemma sessions_destroySession [simp]:
  "sessions (destroySession now sessionId st) = AList.delete sessionId (sessions st)"
  by (simp add: destroySession_eq map_of_eq_None_iff split: option.splits)

lemma handleSessionExpired_expired:
  "map_of (sessions st) sessionId = Some s \<Longrightarrow> isSessionExpired st now s \<Longrightarrow>
   handleSessionExpired now sessionId st = destroySession now sessionId st"
  by (simp add: handleSessionExpired_def getSession.simps)

lemma handleSessionExpired_absent:
  "map_of (sessions st) sessionId = None \<Longrightarrow> handleSessionExpired now sessionId st = st"
  by (simp add: handleSessionExpired_def getSession.simps)

lemma isSessionExpired_cong:
  "sessionTimeout st' = sessionTimeout st \<Longrightarrow> isSessionExpired st' now s = isSessionExpired st now s"
  by (simp add: isSessionExpired_def)

lemma expireSession_expired:
  assumes "\<And>s. map_of (sessions st) k = Some s \<Longrightarrow> isSessionExpired st now s"
  shows "sessions (expireSession now k st) = AList.delete k (sessions st)
       \<and> processes (expireSession now k st) = processes st
       \<and> objects (expireSession now k st) = objects st
       \<and> maxSessions (expireSession now k st) = maxSessions st
       \<and> sessionTimeout (expireSession now k st) = sessionTimeout st"
proof (cases "map_of (sessions st) k")
  case None
  then show ?thesis by (simp add: expireSession_def handleSessionExpired_absent)
next
  case (Some s)
  then show ?thesis using assms[OF Some]
    by (simp add: expireSession_def handleSessionExpired_expired AList.delete_idem)
qed

lemma fold_expireSession:
  assumes "\<forall>k \<in> set ks. \<forall>s. map_of (sessions st) k = Some s \<longrightarrow> isSessionExpired st now s"
  shows "sessions (fold (expireSession now) ks st) = filter (\<lambda>kv. fst kv \<notin> set ks) (sessions st)
       \<and> processes (fold (expireSession now) ks st) = processes st
       \<and> objects (fold (expireSession now) ks st) = objects st
       \<and> maxSessions (fold (expireSession now) ks st) = maxSessions st
       \<and> sessionTimeout (fold (expireSession now) ks st) = sessionTimeout st"
  using assms
proof (induction ks arbitrary: st)
  case Nil
  then show ?case by simp
next
  case (Cons k ks)
  have step: "sessions (expireSession now k st) = AList.delete k (sessions st)
       \<and> processes (expireSession now k st) = processes st
       \<and> objects (expireSession now k st) = objects st
       \<and> maxSessions (expireSession now k st) = maxSessions st
       \<and> sessionTimeout (expireSession now k st) = sessionTimeout st"
    using Cons.prems by (intro expireSession_expired) simp
  have "\<forall>k' \<in> set ks. \<forall>s. map_of (sessions (expireSession now k st)) k' = Some s
          \<longrightarrow> isSessionExpired (expireSession now k st) now s"
  proof (intro ballI allI impI)
    fix k' s assume k': "k' \<in> set ks" and m: "map_of (sessions (expireSession now k st)) k' = Some s"
    from m step have "map_of (sessions st) k' = Some s"
      by (cases "k' = k") (simp_all add: AList.delete_conv')
    with Cons.prems k' have "isSessionExpired st now s" by simp
    with step show "isSessionExpired (expireSession now k st) now s"
      using isSessionExpired_cong[of "expireSession now k st" st now s] by simp
  qed
  from Cons.IH[OF this] step show ?case
    by (auto simp: AList.delete_eq intro: filter_cong)
qed

lemma expired_keys_expired:
  assumes "distinct (map fst (sessions st))"
  shows "\<forall>k \<in> set (map fst (filter (\<lambda>kv. isSessionExpired st now (snd kv)) (sessions st))).
           \<forall>s. map_of (sessions st) k = Some s \<longrightarrow> isSessionExpired st now s"
proof -
  have "s = s'" if "(k, s) \<in> set (sessions st)" "(k, s') \<in> set (sessions st)" for k s s'
    using assms that by (meson eq_key_imp_eq_value)
  then show ?thesis
    by (auto dest!: map_of_SomeD)
qed

lemma sessions_cleanupExpiredSessions:
  assumes "distinct (map fst (sessions st))"
  shows "sessions (cleanupExpiredSessions now st) = liveSessions now st"
proof -
  let ?P = "\<lambda>kv. isSessionExpired st now (snd kv)"
  let ?ks = "map fst (filter ?P (sessions st))"
  have unique: "s = s'" if "(k, s) \<in> set (sessions st)" "(k, s') \<in> set (sessions st)" for k s s'
    using assms that by (meson eq_key_imp_eq_value)
  from fold_expireSession[OF expired_keys_expired[OF assms]]
  have "sessions (cleanupExpiredSessions now st) = filter (\<lambda>kv. fst kv \<notin> set ?ks) (sessions st)"
    by (simp add: cleanupExpiredSessions_def)
  also have "\<dots> = filter (\<lambda>kv. \<not> ?P kv) (sessions st)"
  proof (rule filter_cong[OF refl])
    fix x assume x: "x \<in> set (sessions st)"
    show "(fst x \<notin> set ?ks) = (\<not> ?P x)"
    proof (cases "?P x")
      case True
      with x have "fst x \<in> set ?ks" by force
      with True show ?thesis by simp
    next
      case False
      have "fst x \<notin> set ?ks"
      proof
        assume "fst x \<in> set ?ks"
        then obtain y where y: "y \<in> set (sessions st)" "?P y" "fst y = fst x" by auto
        with x unique[of "fst x" "snd x" "snd y"] have "snd x = snd y"
          by (metis prod.collapse)
        with y False show False by simp
      qed
      with False show ?thesis by simp
    qed
  qed
  finally show ?thesis by (simp add: liveSessions_def)
qed

lemma cleanupExpiredSessions_frame:
  assumes "distinct (map fst (sessions st))"
  shows "processes (cleanupExpiredSessions now st) = processes st"
    and "objects (cleanupExpiredSessions now st) = objects st"
    and "maxSessions (cleanupExpiredSessions now st) = maxSessions st"
    and "sessionTimeout (cleanupExpiredSessions now st) = sessionTimeout st"
  using fold_expireSession[OF expired_keys_expired[OF assms]]
  by (simp_all add: cleanupExpiredSessions_def)

lemma length_update_le: "length (AList.update k v al) \<le> Suc (length al)"
  by (induction al) auto

lemmas server_defs = server0_def HTTPServer_def echoConfig_def maxSessionsOption_def
  StreamableHTTPTransport_def endpointOf_def

lemmas create_defs = createSessionWithProcess_def createSession_def newSession_def spawnProcess_def
  start_def ManagedProcess_def freshAddress_def attachProcess_def onSession_def Let_def

lemma fullServer_eq:
  "sessions fullServer =
     [(''a'', \<lparr>sid = ''a'', createdAt = 0, lastActivityAt = 0, serverConfig = echoConfig,
              stdioProcess = None, messageQueue = [], isInitialized = False, sseConnections = []\<rparr>)]"
  "maxSessions fullServer = 1"
  "sessionTimeout fullServer = 60000"
  by (simp_all add: fullServer_def create_defs server0_def HTTPServer_def)

section \<open>Destroying a session\<close>

lemma ended_endResponse:
  "ended (theResponse (endResponse c st) r) = (r = c \<or> ended (theResponse st r))"
  by (simp add: endResponse_def onResponse_def theResponse_def AList.update_conv')

lemma ended_fold_endResponse:
  "ended (theResponse (fold endResponse cs st) r) = (r \<in> set cs \<or> ended (theResponse st r))"
  by (induction cs arbitrary: st) (auto simp: ended_endResponse)

text \<open>The part of C1 that the code keeps: every attached stream is ended.\<close>

lemma destroySession_closes_streams:
  assumes "map_of (sessions st) sessionId = Some s" and "c \<in> set (sseConnections s)"
  shows "ended (theResponse (destroySession now sessionId st) c)"
proof -
  have "theResponse (destroySession now sessionId st) c
        = theResponse (fold endResponse (sseConnections s) st) c"
    using assms(1) by (simp add: destroySession_eq theResponse_def)
  with assms(2) show ?thesis
    by (simp add: ended_fold_endResponse)
qed

lemma server1_eq:
  "sessions server1 =
     [(''u1'', \<lparr>sid = ''u1'', createdAt = 0, lastActivityAt = 0, serverConfig = echoConfig,
               stdioProcess = Some 0, messageQueue = [], isInitialized = False, sseConnections = []\<rparr>)]"
  "processes server1 = [(''session-u1'', 0)]"
  "objects server1 =
     [(0, \<lparr>mp_id = ''session-u1'', config = echoConfig,
           process = Some \<lparr>stdin = Some [], signals = []\<rparr>, startedAt = Some 0, restarts = 0,
           status = Running, stdoutBuffer = [], stderrBuffer = []\<rparr>)]"
  "httpTransport server1 =
     \<lparr>batchTimeout = 1000, sessionHeader = ''Mcp-Session-Id'', maxEventSize = 65536, eventCounter = 0\<rparr>"
  "proxyTransport server1 =
     \<lparr>batchTimeout = 1000, sessionHeader = ''Mcp-Session-Id'', maxEventSize = 65536, eventCounter = 0\<rparr>"
  "responseObjects server1 = []"
  "sessionTimeout server1 = 60000"
  "maxSessions server1 = 100"
  by (simp_all add: server1_def create_defs server_defs)

lemma getSessionId_deleteRequest: "getSessionId (httpTransport server1) deleteRequest = Some ''u1''"
  by (simp add: server1_eq getSessionId_def deleteRequest_def toLowerCase_def)

text \<open>
  C1. The claim says that destroying a session kills its subprocess and removes the handle
  from the supervisor's active set. In the code the listener of \<^verbatim>\<open>session:destroyed\<close> looks
  the session up after \<open>destroySession\<close> has deleted it, finds nothing and kills nothing
  (\<open>destroySession_frame\<close>: \<open>processes\<close> and \<open>objects\<close> are never changed). On the test
  server with one session \<open>u1\<close> bound to the process object at address 0, a DELETE with
  the session header is answered 204 and removes the session, and the handle
  \<^verbatim>\<open>session-u1\<close> is still in the supervisor's map, still running. The same holds when the
  session is removed by the sweep of the expired sessions, here at time 100000 with a
  timeout of 60000.
\<close>

theorem delete_leaves_subprocess:
  "map fst (sessions server1) = [''u1'']
   \<and> map (stdioProcess \<circ> snd) (sessions server1) = [Some 0]
   \<and> processes server1 = [(''session-u1'', 0)]
   \<and> sessions (handleDeleteSession 1 deleteRequest 7 server1) = []
   \<and> statusCode (theResponse (handleDeleteSession 1 deleteRequest 7 server1) 7) = 204
   \<and> processes (handleDeleteSession 1 deleteRequest 7 server1) = [(''session-u1'', 0)]
   \<and> map (status \<circ> snd) (objects (handleDeleteSession 1 deleteRequest 7 server1)) = [Running]
   \<and> sessions (cleanupExpiredSessions 100000 server1) = []
   \<and> processes (cleanupExpiredSessions 100000 server1) = [(''session-u1'', 0)]
   \<and> map (status \<circ> snd) (objects (cleanupExpiredSessions 100000 server1)) = [Running]"
proof -
  have "handleDeleteSession 1 deleteRequest 7 server1
        = onResponse (\<lambda>r. r\<lparr>statusCode := 204, ended := True\<rparr>) 7 (destroySession 1 ''u1'' server1)"
    by (simp add: handleDeleteSession_def getSessionId_deleteRequest)
  then have deleted: "map fst (sessions server1) = [''u1'']
   \<and> map (stdioProcess \<circ> snd) (sessions server1) = [Some 0]
   \<and> processes server1 = [(''session-u1'', 0)]
   \<and> sessions (handleDeleteSession 1 deleteRequest 7 server1) = []
   \<and> statusCode (theResponse (handleDeleteSession 1 deleteRequest 7 server1) 7) = 204
   \<and> processes (handleDeleteSession 1 deleteRequest 7 server1) = [(''session-u1'', 0)]
   \<and> map (status \<circ> snd) (objects (handleDeleteSession 1 deleteRequest 7 server1)) = [Running]"
    by (simp add: theResponse_onResponse) (simp add: server1_eq onResponse_def)
  have keys: "distinct (map fst (sessions server1))"
    by (simp add: server1_eq)
  have expired: "sessions (cleanupExpiredSessions 100000 server1) = []
   \<and> processes (cleanupExpiredSessions 100000 server1) = [(''session-u1'', 0)]
   \<and> map (status \<circ> snd) (objects (cleanupExpiredSessions 100000 server1)) = [Running]"
    by (simp add: sessions_cleanupExpiredSessions[OF keys] cleanupExpiredSessions_frame[OF keys]
        liveSessions_def isSessionExpired_def server1_eq)
  from deleted expired show ?thesis
    by blast
qed

section \<open>Server-initiated messages and SSE streams\<close>

lemma theResponse_setTransport [simp]:
  "theResponse (setTransport w t st) r = theResponse st r"
  by (cases w) (simp_all add: theResponse_def)


lemma sendSSEMessage_frame [simp]:
  "sessions (sendSSEMessage w res m st) = sessions st"
  "processes (sendSSEMessage w res m st) = processes st"
  "objects (sendSSEMessage w res m st) = objects st"
  "sessionTimeout (sendSSEMessage w res m st) = sessionTimeout st"
  "maxSessions (sendSSEMessage w res m st) = maxSessions st"
  by (cases w; simp add: sendSSEMessage_def sendSSEEvent_def Let_def onResponse_def)+

lemma sendSSEMessage_counter [simp]:
  "eventCounter (getTransport w (sendSSEMessage w res m st)) = Suc (eventCounter (getTransport w st))"
  by (cases w) (simp_all add: sendSSEMessage_def sendSSEEvent_def Let_def onResponse_def)




lemma onSession_fields [simp]:
  "processes (onSession f k st) = processes st"
  "objects (onSession f k st) = objects st"
  "responseObjects (onSession f k st) = responseObjects st"
  "proxyTransport (onSession f k st) = proxyTransport st"
  "httpTransport (onSession f k st) = httpTransport st"
  "sessionTimeout (onSession f k st) = sessionTimeout st"
  "maxSessions (onSession f k st) = maxSessions st"
  "theResponse (onSession f k st) r = theResponse st r"
  by (simp_all add: onSession_def theResponse_def split: option.splits)





lemmas attach_defs = handleSSERequest_def acceptsSSE_def getSessionId_def toLowerCase_def getRequest_def
  getSession.simps isSessionExpired_def updateSessionActivity_def onSession_def onResponse_def
  theResponse_def freshResponse_def initSSE_def writeFrame_def addSSEConnection_def setAdd_def
  dequeueMessages_def sendSSEMessage_def sendSSEEvent_def Let_def
  sessionU1_def openStream_def transportAt_def

lemmas output_defs = handleProcessOutput_def JSONRPCMessageSchema_def JSONRPCResponseSchema_def orElse_def
  JSONRPCVersionSchema_def pick_def List.map_filter_def findSessionByProcessId_def processIdOf_def
  routeProcessMessage_def isInitializeResponse_def setSessionInitialized_def queueMessage_def
  getActiveSSEConnections_def hasSession_def notification_def onSession_def onResponse_def
  theResponse_def freshResponse_def writeFrame_def sendSSEMessage_def sendSSEEvent_def Let_def
  sessionU1_def openStream_def transportAt_def

lemma server1_short:
  "sessions server1 = [(''u1'', sessionU1 0 [] False [])]"
  "httpTransport server1 = transportAt 0"
  "proxyTransport server1 = transportAt 0"
  by (simp_all add: server1_eq sessionU1_def transportAt_def)




lemma queued1_eq:
  "sessions queued1 = [(''u1'', sessionU1 0 [notification ''a''] False [])]"
  "responseObjects queued1 = []"
  "httpTransport queued1 = transportAt 0"
  "proxyTransport queued1 = transportAt 0"
  "objects queued1 = objects server1"
  "sessionTimeout queued1 = 60000"
  by (simp_all add: queued1_def server1_eq output_defs)

lemma attachedQ_eq:
  "sessions attachedQ = [(''u1'', sessionU1 1 [] False [7])]"
  "responseObjects attachedQ = [(7, openStream [Comment ''ok'', Event (messageEvent 1 (notification ''a''))])]"
  "httpTransport attachedQ = transportAt 1"
  "proxyTransport attachedQ = transportAt 0"
  "objects attachedQ = objects server1"
  "sessionTimeout attachedQ = 60000"
  by (simp_all add: attachedQ_def queued1_eq attach_defs)

lemma pushedQ_eq:
  "sessions pushedQ = [(''u1'', sessionU1 1 [notification ''b''] False [7])]"
  "responseObjects pushedQ =
     [(7, openStream [Comment ''ok'', Event (messageEvent 1 (notification ''a'')),
                      Event (messageEvent 1 (notification ''b''))])]"
  by (simp_all add: pushedQ_def attachedQ_eq server1_eq output_defs)

lemma eid_messageEvent: "eid (messageEvent n m) = Some (String_nat n)"
  by (simp add: messageEvent_def)

text \<open>
  C5. The claim says that the event ids one stream receives increase strictly. The queue
  drained at attach is numbered by the counter of the \<open>HTTPServer\<close>'s transport, a
  message pushed later by the counter of the \<open>MCPProxyServer\<close>'s transport, and both
  counters start at 0: the stream that attaches to a session with one queued message
  and then receives one pushed message sees the ids 1 and 1.
\<close>

theorem event_ids_repeat:
  "eventIds (theResponse attachedQ 7) = [''1'']
   \<and> eventIds (theResponse pushedQ 7) = [''1'', ''1'']"
  by (simp add: eventIds_def theResponse_def attachedQ_eq pushedQ_eq openStream_def
      List.map_filter_def eid_messageEvent String_nat.simps digit_def)
















section \<open>Requests and batches\<close>

lemma scanMessages_object:
  "scanMessages req sessionId msgs st = (st', Some msg) \<Longrightarrow> hasKey ''id'' msg"
  by (induction msgs arbitrary: st) (auto simp: isResponseFor_def split: if_splits)

lemma checkForResponse_object:
  "checkForResponse arr startTime sessionId req k st = (st', Inr msg) \<Longrightarrow> hasKey ''id'' msg"
proof (induction arr startTime sessionId req k st rule: checkForResponse.induct)
  case (1 arr startTime sessionId req k st)
  show ?case
  proof (cases "hasSession sessionId st")
    case False
    with "1.prems" show ?thesis by (simp add: checkForResponse.simps)
  next
    case True
    obtain messages st1 where d: "dequeueMessages sessionId st = (messages, st1)"
      by (cases "dequeueMessages sessionId st")
    obtain st2 found where s: "scanMessages req sessionId messages st1 = (st2, found)"
      by (cases "scanMessages req sessionId messages st1")
    show ?thesis
    proof (cases found)
      case (Some m)
      with "1.prems" True d s have "m = msg"
        by (simp add: checkForResponse.simps)
      with s Some scanMessages_object show ?thesis by blast
    next
      case None
      show ?thesis
      proof (cases "checkInterval * int k > timeout")
        case t: True
        with "1.prems" True d s None show ?thesis by (simp add: checkForResponse.simps)
      next
        case f: False
        have nn: "\<not> \<not> hasSession sessionId st" using True by simp
        from "1.prems" True d s None f
        have "checkForResponse arr startTime sessionId req (Suc k)
                (fold (applyEvent (startTime + checkInterval * int (Suc k))) (arr k) st2) = (st', Inr msg)"
          by (simp add: checkForResponse.simps)
        from "1.IH"[OF nn d[symmetric] s[symmetric] None f this]
        show ?thesis .
      qed
    qed
  qed
qed


lemma hasKey_not_array: "hasKey k v \<Longrightarrow> \<not> isArray v"
  by (cases v) simp_all

lemma forward_object:
  "forward W startTime s sessionId message st = (st', Inr (Some r)) \<Longrightarrow> hasKey ''id'' r"
  by (auto simp: forward_def waitForResponse_def Let_def
      split: option.splits sum.splits if_splits prod.splits dest: checkForResponse_object)

lemma handleRequestTry_object:
  "handleRequestTry W sessionId message serverEndpoint st = (st', Inr (Some r)) \<Longrightarrow> hasKey ''id'' r"
  by (auto simp: handleRequestTry_def split: option.splits sum.splits if_splits prod.splits
      dest: forward_object)

lemma handleRequest_object:
  assumes "handleRequest W sessionId message serverEndpoint st = (st', Inr (Some r))"
  shows "\<not> isArray r"
proof (cases "handleRequestTry W sessionId message serverEndpoint st")
  case (Pair st1 out)
  show ?thesis
  proof (cases out)
    case (Inl e)
    with Pair assms have "r = errorResponse message e"
      by (simp add: handleRequest_def split: if_splits)
    then show ?thesis by (simp add: errorResponse_def)
  next
    case (Inr x)
    with Pair assms have "handleRequestTry W sessionId message serverEndpoint st = (st', Inr (Some r))"
      by (simp add: handleRequest_def)
    then show ?thesis by (blast dest: handleRequestTry_object hasKey_not_array)
  qed
qed

lemma handleRequest_throws:
  "handleRequest W sessionId message serverEndpoint st = (st', Inl e) \<Longrightarrow> \<not> hasKey ''id'' message"
  by (auto simp: handleRequest_def split: prod.splits sum.splits if_splits)

lemma batchLoop_eq:
  "batchLoop Ws i sessionId serverEndpoint messages acc st =
     (stateAfter Ws i sessionId serverEndpoint messages st,
      acc @ List.map_filter responseOf (entryOutcomes Ws i sessionId serverEndpoint messages st))"
proof (induction messages arbitrary: i acc st)
  case Nil
  then show ?case by (simp add: List.map_filter_simps)
next
  case (Cons message rest)
  obtain st' out where h: "handleRequest (Ws i) sessionId message serverEndpoint st = (st', out)"
    by (cases "handleRequest (Ws i) sessionId message serverEndpoint st")
  show ?case
  proof (cases out)
    case (Inl e)
    with h handleRequest_throws have "\<not> hasKey ''id'' message" by blast
    with h Inl Cons.IH show ?thesis
      by (simp add: List.map_filter_simps responseOf_def)
  next
    case (Inr r)
    show ?thesis
    proof (cases r)
      case None
      with h Inr Cons.IH show ?thesis
        by (simp add: List.map_filter_simps responseOf_def)
    next
      case (Some response)
      with h Inr handleRequest_object have "\<not> isArray response" by blast
      with h Inr Some Cons.IH show ?thesis
        by (simp add: List.map_filter_simps responseOf_def)
    qed
  qed
qed

lemma length_entryOutcomes:
  "length (entryOutcomes Ws i sessionId serverEndpoint messages st) = length messages"
  by (induction messages arbitrary: i st) simp_all

lemma stateAfter_append:
  "stateAfter Ws i sessionId serverEndpoint (xs @ ys) st
   = stateAfter Ws (i + length xs) sessionId serverEndpoint ys
       (stateAfter Ws i sessionId serverEndpoint xs st)"
  by (induction xs arbitrary: i st) simp_all

lemma entryOutcomes_nth:
  "j < length messages \<Longrightarrow>
   entryOutcomes Ws i sessionId serverEndpoint messages st ! j
   = snd (handleRequest (Ws (i + j)) sessionId (messages ! j) serverEndpoint
            (stateAfter Ws i sessionId serverEndpoint (take j messages) st))"
proof (induction messages arbitrary: i j st)
  case Nil
  then show ?case by simp
next
  case (Cons message rest)
  then show ?case by (cases j) simp_all
qed

lemma handleRequest_error_response:
  assumes "getProp message ''id'' = Some v"
    and "handleRequestTry W s message serverEndpoint st1 = (st2, Inl e)"
  shows "handleRequest W s message serverEndpoint st1
         = (st2, Inr (Some (JObj [(''jsonrpc'', JStr ''2.0''), (''id'', v),
                                  (''error'', JObj [(''code'', JNum (- 32603)),
                                                    (''message'', JStr ''Internal error''),
                                                    (''data'', JStr (String_error e))])])))"
proof -
  from assms(1) have "hasKey ''id'' message"
    by (cases message) simp_all
  with assms show ?thesis
    by (simp add: handleRequest_def errorResponse_def createInternalError_def createJSONRPCError_def)
qed

lemma outcome_in_responses:
  assumes "j < length outs" and "outs ! j = Inr (Some r)"
  shows "r \<in> set (List.map_filter responseOf outs)"
proof -
  from assms have "Inr (Some r) \<in> set outs"
    by (metis nth_mem)
  then show ?thesis
    by (force simp: List.map_filter_def responseOf_def)
qed

text \<open>
  C7. \<open>handleBatch\<close> returns, in input order, exactly the responses of the entries whose
  outcome is a response (an entry whose outcome is \<^verbatim>\<open>null\<close>, or an error thrown for a message
  without id, contributes nothing); it leaves the state that the entries, run in input
  order, leave; every entry has an outcome, so no entry stops the loop: the outcome of
  entry \<open>i\<close> is what \<open>handleRequest\<close> returns for it in the state left by the entries
  before it. An error \<open>e\<close> raised while a message with an \<^verbatim>\<open>id\<close> member \<open>v\<close> is handled becomes
  the response \<^verbatim>\<open>{jsonrpc: "2.0", id: v, error: {code: -32603, message: "Internal error",
  data: String(e)}}\<close>, and when the message is entry \<open>i\<close> of the batch this response is among
  the responses returned.
\<close>

theorem handleBatch_in_order:
  "snd (handleBatch Ws sessionId messages serverEndpoint st)
     = List.map_filter responseOf (entryOutcomes Ws 0 sessionId serverEndpoint messages st)
   \<and> fst (handleBatch Ws sessionId messages serverEndpoint st)
     = stateAfter Ws 0 sessionId serverEndpoint messages st
   \<and> length (entryOutcomes Ws 0 sessionId serverEndpoint messages st) = length messages
   \<and> (\<forall>i < length messages.
        entryOutcomes Ws 0 sessionId serverEndpoint messages st ! i
        = snd (handleRequest (Ws i) sessionId (messages ! i) serverEndpoint
                 (stateAfter Ws 0 sessionId serverEndpoint (take i messages) st)))
   \<and> (\<forall>W s message st1 st2 e v.
        getProp message ''id'' = Some v
        \<and> handleRequestTry W s message serverEndpoint st1 = (st2, Inl e)
        \<longrightarrow> handleRequest W s message serverEndpoint st1
            = (st2, Inr (Some (JObj [(''jsonrpc'', JStr ''2.0''), (''id'', v),
                                     (''error'', JObj [(''code'', JNum (- 32603)),
                                                       (''message'', JStr ''Internal error''),
                                                       (''data'', JStr (String_error e))])]))))
   \<and> (\<forall>i < length messages. \<forall>st2 e v.
        getProp (messages ! i) ''id'' = Some v
        \<and> handleRequestTry (Ws i) sessionId (messages ! i) serverEndpoint
              (stateAfter Ws 0 sessionId serverEndpoint (take i messages) st) = (st2, Inl e)
        \<longrightarrow> JObj [(''jsonrpc'', JStr ''2.0''), (''id'', v),
                  (''error'', JObj [(''code'', JNum (- 32603)),
                                    (''message'', JStr ''Internal error''),
                                    (''data'', JStr (String_error e))])]
              \<in> set (snd (handleBatch Ws sessionId messages serverEndpoint st))
            \<and> stateAfter Ws 0 sessionId serverEndpoint (take (Suc i) messages) st = st2)"
proof -
  let ?outs = "entryOutcomes Ws 0 sessionId serverEndpoint messages st"
  have loop: "snd (handleBatch Ws sessionId messages serverEndpoint st) = List.map_filter responseOf ?outs
      \<and> fst (handleBatch Ws sessionId messages serverEndpoint st)
          = stateAfter Ws 0 sessionId serverEndpoint messages st
      \<and> length ?outs = length messages"
    by (simp add: handleBatch_def batchLoop_eq length_entryOutcomes)
  have nth: "\<forall>i < length messages.
        ?outs ! i = snd (handleRequest (Ws i) sessionId (messages ! i) serverEndpoint
                          (stateAfter Ws 0 sessionId serverEndpoint (take i messages) st))"
    by (simp add: entryOutcomes_nth)
  have single: "\<forall>W s message st1 st2 e v.
        getProp message ''id'' = Some v
        \<and> handleRequestTry W s message serverEndpoint st1 = (st2, Inl e)
        \<longrightarrow> handleRequest W s message serverEndpoint st1
            = (st2, Inr (Some (JObj [(''jsonrpc'', JStr ''2.0''), (''id'', v),
                                     (''error'', JObj [(''code'', JNum (- 32603)),
                                                       (''message'', JStr ''Internal error''),
                                                       (''data'', JStr (String_error e))])])))"
    by (blast intro: handleRequest_error_response)
  have entry: "JObj [(''jsonrpc'', JStr ''2.0''), (''id'', v),
                  (''error'', JObj [(''code'', JNum (- 32603)),
                                    (''message'', JStr ''Internal error''),
                                    (''data'', JStr (String_error e))])]
              \<in> set (snd (handleBatch Ws sessionId messages serverEndpoint st))
            \<and> stateAfter Ws 0 sessionId serverEndpoint (take (Suc i) messages) st = st2"
    if i: "i < length messages" and v: "getProp (messages ! i) ''id'' = Some v"
      and t: "handleRequestTry (Ws i) sessionId (messages ! i) serverEndpoint
              (stateAfter Ws 0 sessionId serverEndpoint (take i messages) st) = (st2, Inl e)"
    for i st2 e v
  proof -
    let ?r = "JObj [(''jsonrpc'', JStr ''2.0''), (''id'', v),
                  (''error'', JObj [(''code'', JNum (- 32603)),
                                    (''message'', JStr ''Internal error''),
                                    (''data'', JStr (String_error e))])]"
    have h: "handleRequest (Ws i) sessionId (messages ! i) serverEndpoint
               (stateAfter Ws 0 sessionId serverEndpoint (take i messages) st) = (st2, Inr (Some ?r))"
      using v t by (rule handleRequest_error_response)
    with nth i have "?outs ! i = Inr (Some ?r)"
      by simp
    with i loop have "?r \<in> set (snd (handleBatch Ws sessionId messages serverEndpoint st))"
      by (simp add: outcome_in_responses)
    moreover have "stateAfter Ws 0 sessionId serverEndpoint (take (Suc i) messages) st = st2"
      using i h by (simp add: take_Suc_conv_app_nth stateAfter_append)
    ultimately show ?thesis
      by simp
  qed
  from loop nth single entry show ?thesis
    by blast
qed

text \<open>
  C10. For an initialize request, \<open>handleRequest\<close> with a session id supplied returns what
  it returns with none supplied, state and result: the supplied id is never read.
\<close>

theorem initialize_ignores_session_id:
  "isInitializeRequest message \<Longrightarrow>
   handleRequest W (Some suppliedId) message serverEndpoint st
   = handleRequest W None message serverEndpoint st"
  by (simp add: handleRequest_def handleRequestTry_def)


lemmas request_defs = handleRequest_def handleRequestTry_def forward_def create_defs server_defs
  echoWorld_def initializeRequest_def initializeResponse_def
  isInitializeRequest_def sendToStdin_def endsWith_def quote_def escape_def onObject_def
  requiresResponse_def waitForResponse_def checkForResponse.simps hasSession_def
  dequeueMessages_def checkInterval_def timeout_def startWindow_def
  handleProcessOutput_def JSONRPCMessageSchema_def JSONRPCResponseSchema_def orElse_def
  JSONRPCVersionSchema_def pick_def List.map_filter_def findSessionByProcessId_def processIdOf_def
  routeProcessMessage_def isInitializeResponse_def setSessionInitialized_def queueMessage_def
  getActiveSSEConnections_def isResponseFor_def

lemma handleRequest_initialize:
  "snd (handleRequest echoWorld None initializeRequest ''/echo'' server0) = Inr (Some initializeResponse)"
  by (simp add: request_defs)

lemma initialized_eq:
  "sessions initialized = [(''u1'', sessionU1 0 [] True [])]"
  "processes initialized = [(''session-u1'', 0)]"
  "responseObjects initialized = []"
  "httpTransport initialized = transportAt 0"
  by (simp_all add: initialized_def request_defs sessionU1_def transportAt_def)

lemma handleRequest_initialize_eq:
  "handleRequest echoWorld None initializeRequest ''/echo'' server0
   = (initialized, Inr (Some initializeResponse))"
  by (simp add: prod_eq_iff initialized_def handleRequest_initialize)

theorem initialize_ignores_session_id_witness:
  "isInitializeRequest initializeRequest
   \<and> handleRequest echoWorld (Some ''stale'') initializeRequest ''/echo'' server0
       = (initialized, Inr (Some initializeResponse))
   \<and> sessions initialized = [(''u1'', sessionU1 0 [] True [])]
   \<and> processes initialized = [(''session-u1'', 0)]"
  using initialize_ignores_session_id[of initializeRequest echoWorld "''stale''" "''/echo''" server0]
  by (simp add: handleRequest_initialize_eq initialized_eq)
     (simp add: isInitializeRequest_def initializeRequest_def)

lemma handleRequest_no_session:
  "\<not> isInitializeRequest m \<Longrightarrow> handleRequestTry W None m ep st = (st, Inl SessionIdRequired)"
  by (simp add: handleRequestTry_def)

theorem handleBatch_in_order_witness:
  "snd (handleBatch (\<lambda>i. echoWorld) None
          [initializeRequest, toolsList, notification ''notifications/initialized''] ''/echo'' server0)
     = [initializeResponse,
        JObj [(''jsonrpc'', JStr ''2.0''), (''id'', JNum 2),
              (''error'', JObj [(''code'', JNum (- 32603)), (''message'', JStr ''Internal error''),
                                (''data'', JStr ''Error: Session ID required for non-initialize requests'')])]]
   \<and> entryOutcomes (\<lambda>i. echoWorld) 0 None ''/echo''
          [initializeRequest, toolsList, notification ''notifications/initialized''] server0
     = [Inr (Some initializeResponse),
        Inr (Some (JObj [(''jsonrpc'', JStr ''2.0''), (''id'', JNum 2),
              (''error'', JObj [(''code'', JNum (- 32603)), (''message'', JStr ''Internal error''),
                                (''data'', JStr ''Error: Session ID required for non-initialize requests'')])])),
        Inl SessionIdRequired]
   \<and> getProp toolsList ''id'' = Some (JNum 2)
   \<and> stateAfter (\<lambda>i. echoWorld) 0 None ''/echo''
         (take 1 [initializeRequest, toolsList, notification ''notifications/initialized'']) server0
       = initialized
   \<and> handleRequestTry echoWorld None toolsList ''/echo'' initialized = (initialized, Inl SessionIdRequired)
   \<and> handleRequest echoWorld None toolsList ''/echo'' initialized
       = (initialized,
          Inr (Some (JObj [(''jsonrpc'', JStr ''2.0''), (''id'', JNum 2),
              (''error'', JObj [(''code'', JNum (- 32603)), (''message'', JStr ''Internal error''),
                                (''data'', JStr ''Error: Session ID required for non-initialize requests'')])])))
   \<and> stateAfter (\<lambda>i. echoWorld) 0 None ''/echo''
         (take 2 [initializeRequest, toolsList, notification ''notifications/initialized'']) server0
       = initialized"
proof -
  let ?batch = "[initializeRequest, toolsList, notification ''notifications/initialized'']"
  let ?err = "JObj [(''jsonrpc'', JStr ''2.0''), (''id'', JNum 2),
              (''error'', JObj [(''code'', JNum (- 32603)), (''message'', JStr ''Internal error''),
                                (''data'', JStr ''Error: Session ID required for non-initialize requests'')])]"
  have n: "\<not> isInitializeRequest (notification ''notifications/initialized'')"
      "\<not> hasKey ''id'' (notification ''notifications/initialized'')"
      "\<not> isInitializeRequest toolsList" "getProp toolsList ''id'' = Some (JNum 2)"
    by (simp_all add: isInitializeRequest_def notification_def toolsList_def)
  have t: "handleRequestTry echoWorld None toolsList ''/echo'' initialized = (initialized, Inl SessionIdRequired)"
    using n by (simp add: handleRequest_no_session)
  have s1: "stateAfter (\<lambda>i. echoWorld) 0 None ''/echo'' (take 1 ?batch) server0 = initialized"
    by (simp add: handleRequest_initialize_eq)
  note inst = handleBatch_in_order[of "\<lambda>i. echoWorld" None ?batch "''/echo''" server0]
  from inst n(4) t
  have h: "handleRequest echoWorld None toolsList ''/echo'' initialized = (initialized, Inr (Some ?err))"
    by (simp del: handleRequest_def)
  from inst have s2: "\<forall>st2 e v. getProp (?batch ! 1) ''id'' = Some v
        \<and> handleRequestTry echoWorld None (?batch ! 1) ''/echo''
              (stateAfter (\<lambda>i. echoWorld) 0 None ''/echo'' (take 1 ?batch) server0) = (st2, Inl e)
        \<longrightarrow> stateAfter (\<lambda>i. echoWorld) 0 None ''/echo'' (take (Suc 1) ?batch) server0 = st2"
    by (simp del: stateAfter.simps take_Suc_Cons)
  have s2': "stateAfter (\<lambda>i. echoWorld) 0 None ''/echo'' (take 2 ?batch) server0 = initialized"
    using s2 n(4) t s1 by (simp add: handleRequest_initialize_eq h)
  have out: "entryOutcomes (\<lambda>i. echoWorld) 0 None ''/echo'' ?batch server0
     = [Inr (Some initializeResponse), Inr (Some ?err), Inl SessionIdRequired]"
    using n by (simp add: handleRequest_initialize_eq h)
      (simp add: handleRequest_def handleRequest_no_session)
  from inst have "snd (handleBatch (\<lambda>i. echoWorld) None ?batch ''/echo'' server0)
       = List.map_filter responseOf (entryOutcomes (\<lambda>i. echoWorld) 0 None ''/echo'' ?batch server0)"
    by blast
  then have "snd (handleBatch (\<lambda>i. echoWorld) None ?batch ''/echo'' server0) = [initializeResponse, ?err]"
    unfolding out by (simp add: List.map_filter_def responseOf_def)
  with out n(4) s1 t h s2' show ?thesis
    by simp
qed

text \<open>
  C3. The claim says that the 200 JSON answer to a successful initialize carries the
  \<^verbatim>\<open>Mcp-Session-Id\<close> header. \<open>findSessionFromResponse\<close> always returns \<^verbatim>\<open>null\<close>, so the
  header is never set on that path: the initialize request posted to \<^verbatim>\<open>/echo\<close> of the test
  server creates session \<open>u1\<close> and is answered 200 with the subprocess's response as JSON
  body, and the only header of the response is the content type.
\<close>

theorem initialize_without_session_header:
  "statusCode (theResponse (handleMCPRequest (\<lambda>i. echoWorld) ''/echo'' initializePost 0 server0) 0) = 200
   \<and> frames (theResponse (handleMCPRequest (\<lambda>i. echoWorld) ''/echo'' initializePost 0 server0) 0)
       = [Body initializeResponse]
   \<and> map fst (sessions (handleMCPRequest (\<lambda>i. echoWorld) ''/echo'' initializePost 0 server0)) = [''u1'']
   \<and> headers (theResponse (handleMCPRequest (\<lambda>i. echoWorld) ''/echo'' initializePost 0 server0) 0)
       = [(''Content-Type'', ''application/json; charset=utf-8'')]
   \<and> map_of (headers (theResponse (handleMCPRequest (\<lambda>i. echoWorld) ''/echo'' initializePost 0 server0) 0))
        ''Mcp-Session-Id'' = None"
proof -
  have v: "validateContentType initializePost 0 server0 = (True, server0)"
      "validateAcceptHeader initializePost 0 server0 = (True, server0)"
      "getSessionId (httpTransport server0) initializePost = None"
      "parseRequest (body initializePost) = Some initializeRequest"
    by (simp_all add: validateContentType_def validateAcceptHeader_def validTypes_def initializePost_def
        getSessionId_def toLowerCase_def server_defs parseRequest_def JSONRPCMessageSchema_def
        orElse_def JSONRPCVersionSchema_def pick_def List.map_filter_def initializeRequest_def)
  have r: "respond initializePost 0 None initializeRequest (Some initializeResponse) initialized
           = onResponse (sendJSON initializeResponse 200) 0 initialized"
    by (simp add: respond_def acceptsSSE_def initializePost_def initializeRequest_def
        initializeResponse_def isInitializeRequest_def findSessionFromResponse_def)
  have "handleMCPRequest (\<lambda>i. echoWorld) ''/echo'' initializePost 0 server0
        = onResponse (sendJSON initializeResponse 200) 0 initialized"
    by (simp add: handleMCPRequest_def v)
       (simp add: initializeRequest_def handleRequest_initialize_eq[unfolded initializeRequest_def]
          r[unfolded initializeRequest_def])
  then show ?thesis
    by (simp add: theResponse_onResponse)
       (simp add: onResponse_def initialized_eq theResponse_def freshResponse_def sendJSON_def
        resJson_def setCharset_def setHeader_def writeFrame_def Let_def)
qed

section \<open>The session limit\<close>

lemma shrinks_refl [simp]: "shrinks st st"
  by (simp add: shrinks_def)

lemma length_update_present: "map_of al k = Some v \<Longrightarrow> length (AList.update k v' al) = length al"
  by (induction al) (auto split: if_splits)

lemma shrinks_onSession [simp]: "shrinks st s \<Longrightarrow> shrinks st (onSession f k s)"
  by (simp add: shrinks_def onSession_def length_update_present split: option.splits)

lemma shrinks_onResponse [simp]: "shrinks st s \<Longrightarrow> shrinks st (onResponse f r s)"
  by (simp add: shrinks_def onResponse_def)

lemma shrinks_onObject [simp]: "shrinks st s \<Longrightarrow> shrinks st (onObject f a s)"
  by (simp add: shrinks_def onObject_def)

lemma shrinks_destroySession [simp]: "shrinks st s \<Longrightarrow> shrinks st (destroySession now k s)"
  using AList.length_delete_le[of k "sessions s"] by (simp add: shrinks_def)

lemma shrinks_killProcess [simp]: "shrinks st s \<Longrightarrow> shrinks st (killProcess p s)"
  by (simp add: shrinks_def killProcess_def onObject_def split: option.splits)

lemma shrinks_fold:
  assumes "\<And>x s. shrinks st s \<Longrightarrow> shrinks st (f x s)" and "shrinks st s0"
  shows "shrinks st (fold f xs s0)"
  using assms(2) by (induction xs arbitrary: s0) (simp_all add: assms(1))

lemma shrinks_getSession [simp]: "shrinks st s \<Longrightarrow> shrinks st (fst (getSession now k s))"
  by (simp add: getSession.simps updateSessionActivity_def split: option.splits)

lemma shrinks_handleSessionExpired [simp]:
  "shrinks st s \<Longrightarrow> shrinks st (handleSessionExpired now k s)"
  by (simp add: handleSessionExpired_def case_prod_beta split: option.splits)

lemma shrinks_expireSession [simp]: "shrinks st s \<Longrightarrow> shrinks st (expireSession now k s)"
  by (simp add: expireSession_def)

lemma shrinks_cleanupExpiredSessions [simp]:
  "shrinks st s \<Longrightarrow> shrinks st (cleanupExpiredSessions now s)"
  by (simp add: cleanupExpiredSessions_def shrinks_fold)

lemma shrinks_sendSSEMessage [simp]: "shrinks st s \<Longrightarrow> shrinks st (sendSSEMessage w res m s)"
  by (simp add: shrinks_def)

lemma shrinks_routeProcessMessage:
  "shrinks st s \<Longrightarrow> routeProcessMessage k m s = Inr s' \<Longrightarrow> shrinks st s'"
  by (auto simp: routeProcessMessage_def Let_def queueMessage_def setSessionInitialized_def
      shrinks_fold split: if_splits sum.splits)

lemma shrinks_handleProcessOutput [simp]:
  "shrinks st s \<Longrightarrow> shrinks st (handleProcessOutput p parsed s)"
  by (auto simp: handleProcessOutput_def shrinks_routeProcessMessage
      split: option.splits sum.splits)

lemma shrinks_dequeueMessages [simp]: "shrinks st s \<Longrightarrow> shrinks st (snd (dequeueMessages k s))"
  by (simp add: dequeueMessages_def split: option.splits)

lemma shrinks_handleSSERequest [simp]:
  "shrinks st s \<Longrightarrow> shrinks st (handleSSERequest now ep req res s)"
  by (simp add: handleSSERequest_def Let_def case_prod_beta addSSEConnection_def shrinks_fold
      split: option.splits)

lemma shrinks_handleDeleteSession [simp]:
  "shrinks st s \<Longrightarrow> shrinks st (handleDeleteSession now req res s)"
  by (simp add: handleDeleteSession_def split: option.splits)

lemma shrinks_applyEvent [simp]: "shrinks st s \<Longrightarrow> shrinks st (applyEvent now ev s)"
  by (cases ev) simp_all

lemma shrinks_scanMessages [simp]:
  "shrinks st s \<Longrightarrow> shrinks st (fst (scanMessages req k msgs s))"
  by (induction msgs arbitrary: s) (simp_all add: queueMessage_def)

lemma shrinks_checkForResponse [simp]:
  "shrinks st s \<Longrightarrow> shrinks st (fst (checkForResponse arr startTime k req n s))"
proof (induction arr startTime k req n s rule: checkForResponse.induct)
  case (1 arr startTime sessionId req k s)
  let ?d = "dequeueMessages sessionId s"
  let ?sc = "scanMessages req sessionId (fst ?d) (snd ?d)"
  show ?case
  proof (cases "hasSession sessionId s \<and> snd ?sc = None \<and> \<not> checkInterval * int k > timeout")
    case True
    have nn: "\<not> \<not> hasSession sessionId s" and none: "snd ?sc = None"
      and t: "\<not> timeout < checkInterval * int k"
      using True by simp_all
    have d: "(fst ?d, snd ?d) = dequeueMessages sessionId s"
      and sc: "(fst ?sc, snd ?sc) = scanMessages req sessionId (fst ?d) (snd ?d)"
      by simp_all
    have "shrinks st (fold (applyEvent (startTime + checkInterval * int (Suc k))) (arr k) (fst ?sc))"
      using "1.prems" by (simp add: shrinks_fold)
    from "1.IH"[OF nn d sc none t this] True
    show ?thesis
      by (subst checkForResponse.simps) (simp add: case_prod_beta)
  next
    case False
    with "1.prems" show ?thesis
      by (subst checkForResponse.simps) (auto simp: case_prod_beta split: option.splits)
  qed
qed

lemma shrinks_forward [simp]:
  "shrinks st s \<Longrightarrow> shrinks st (fst (forward W startTime x k m s))"
  by (simp add: forward_def waitForResponse_def Let_def case_prod_beta
      split: option.splits sum.splits)

lemma withinLimit_shrinks: "withinLimit st \<Longrightarrow> shrinks st s \<Longrightarrow> withinLimit s"
  by (simp add: shrinks_def withinLimit_def)

lemma withinLimit_newSession:
  "length (sessions s) < maxSessions s \<Longrightarrow> withinLimit (fst (newSession now i cfg proc s))"
  unfolding newSession_def Let_def withinLimit_def
  by (simp, rule order_trans[OF length_update_le]) simp

lemma withinLimit_createSession:
  "withinLimit s \<Longrightarrow> withinLimit (fst (createSession now i cfg proc s))"
proof -
  assume w: "withinLimit s"
  have c: "withinLimit (cleanupExpiredSessions now s)"
    using w by (rule withinLimit_shrinks) simp
  show ?thesis
    using w c
    by (auto simp: createSession_def Let_def intro!: withinLimit_newSession)
qed

lemma withinLimit_createSessionWithProcess:
  "withinLimit s \<Longrightarrow> withinLimit (fst (createSessionWithProcess oc now i cfg s))"
proof -
  assume w: "withinLimit s"
  let ?c = "createSession now i cfg None s"
  have c: "withinLimit (fst ?c)" using w by (rule withinLimit_createSession)
  have sp: "shrinks (fst ?c) (fst (spawnProcess oc now p cfg (fst ?c)))" for p
    by (simp add: spawnProcess_def Let_def shrinks_def split: prod.splits option.splits)
  have "shrinks (fst ?c) (fst (createSessionWithProcess oc now i cfg s))"
    using sp
    by (simp add: createSessionWithProcess_def case_prod_beta attachProcess_def
        split: sum.splits)
  with c show ?thesis by (rule withinLimit_shrinks)
qed

lemma withinLimit_handleRequest:
  "withinLimit s \<Longrightarrow> withinLimit (fst (handleRequest W k m ep s))"
proof -
  assume w: "withinLimit s"
  have "withinLimit (fst (handleRequestTry W k m ep s))"
  proof (cases "isInitializeRequest m")
    case True
    show ?thesis
    proof (cases "map_of (serverConfigs s) ep")
      case None
      with True w show ?thesis by (simp add: handleRequestTry_def)
    next
      case (Some cfg)
      let ?c = "createSessionWithProcess (outcome W) (clock W) (uuid W) cfg s"
      have c: "withinLimit (fst ?c)" using w by (rule withinLimit_createSessionWithProcess)
      have "shrinks (fst ?c) (fst (handleRequestTry W k m ep s))"
        using True Some by (simp add: handleRequestTry_def case_prod_beta split: sum.splits)
      with c show ?thesis by (rule withinLimit_shrinks)
    qed
  next
    case False
    have "shrinks s (fst (handleRequestTry W k m ep s))"
      using False by (simp add: handleRequestTry_def case_prod_beta split: option.splits)
    with w show ?thesis by (rule withinLimit_shrinks)
  qed
  then show ?thesis
    by (simp add: handleRequest_def case_prod_beta split: sum.splits)
qed

lemma withinLimit_stateAfter:
  "withinLimit s \<Longrightarrow> withinLimit (stateAfter Ws i k ep ms s)"
  by (induction ms arbitrary: i s) (simp_all add: withinLimit_handleRequest)

lemma shrinks_respond [simp]: "shrinks st s \<Longrightarrow> shrinks st (respond req res k m r s)"
  by (simp add: respond_def Let_def endResponse_def findSessionFromResponse_def split: option.splits)

lemma withinLimit_handleMCPRequest:
  assumes w: "withinLimit s"
  shows "withinLimit (handleMCPRequest Ws ep req res s)"
proof -
  obtain b1 s1 where v1: "validateContentType req res s = (b1, s1)"
    by (cases "validateContentType req res s")
  obtain b2 s2 where v2: "validateAcceptHeader req res s1 = (b2, s2)"
    by (cases "validateAcceptHeader req res s1")
  have "shrinks s s1"
    using v1 by (auto simp: validateContentType_def split: if_splits)
  then have "shrinks s s2"
    using v2 by (auto simp: validateAcceptHeader_def split: option.splits if_splits)
  have w1: "withinLimit s1" using w \<open>shrinks s s1\<close> by (rule withinLimit_shrinks)
  have w2: "withinLimit s2" using w \<open>shrinks s s2\<close> by (rule withinLimit_shrinks)
  have post: "withinLimit (onResponse f res x)" "withinLimit (respond req res k m r x)"
    if "withinLimit x" for f x k m r
    using that by (auto intro: withinLimit_shrinks)
  have single: "withinLimit (case handleRequest (Ws 0) k m ep s2 of
        (st3, Inl e) \<Rightarrow> onResponse (sendError (createServerError (String_error e) None) 500) res st3
      | (st3, Inr response) \<Rightarrow> respond req res k m response st3)" for k m
    using withinLimit_handleRequest[OF w2, of "Ws 0" k m ep]
    by (auto simp: post split: prod.splits sum.splits)
  have batch: "withinLimit (case handleBatch Ws k ms ep s2 of
        (st3, responses) \<Rightarrow> respond req res k m (Some (JArr responses)) st3)" for k ms m
    using withinLimit_stateAfter[OF w2, of Ws 0 k ep ms]
    by (simp add: handleBatch_def batchLoop_eq post)
  show ?thesis
  proof (cases "b1 \<and> b2")
    case False
    with v1 v2 w1 w2 show ?thesis
      by (cases b1) (simp_all add: handleMCPRequest_def Let_def)
  next
    case True
    show ?thesis
    proof (cases "parseRequest (body req)")
      case None
      with True v1 v2 w2 show ?thesis
        by (simp add: handleMCPRequest_def post Let_def)
    next
      case (Some m)
      with True v1 v2 single batch show ?thesis
        by (cases m) (simp_all add: handleMCPRequest_def Let_def)
    qed
  qed
qed

lemma withinLimit_applyEvent: "withinLimit s \<Longrightarrow> withinLimit (applyEvent now ev s)"
  using shrinks_applyEvent[OF shrinks_refl] withinLimit_shrinks by blast

lemma withinLimit_HTTPServer: "withinLimit (HTTPServer t b servers)"
  by (simp add: withinLimit_def HTTPServer_def)

text \<open>
  C8. With the keys of the session map distinct (it is a \<^verbatim>\<open>Map\<close>): \<open>createSession\<close> fails
  exactly when the sessions left by the sweep of the expired ones still number at least
  \<open>maxSessions\<close>; the error is the session-limit error; a registry within its limit stays
  within it, under \<open>createSession\<close>, under every POST handled by \<open>handleMCPRequest\<close> and
  under every other event (subprocess output, a GET, a DELETE, the cleanup timer), and a new
  server is within it; and the limit is 100 unless another one is given, as in the proxy.
\<close>

theorem createSession_limit:
  assumes "distinct (map fst (sessions st))"
  shows "((\<exists>e. snd (createSession now newId cfg proc st) = Inl e)
            \<longleftrightarrow> maxSessions st \<le> length (liveSessions now st))
       \<and> (\<forall>e. snd (createSession now newId cfg proc st) = Inl e \<longrightarrow> e = MaxSessions (maxSessions st))
       \<and> (length (sessions st) \<le> maxSessions st
            \<longrightarrow> length (sessions (fst (createSession now newId cfg proc st)))
                  \<le> maxSessions (fst (createSession now newId cfg proc st)))
       \<and> (withinLimit st \<longrightarrow> withinLimit (handleMCPRequest Ws ep req res st))
       \<and> (withinLimit st \<longrightarrow> withinLimit (applyEvent now ev st))
       \<and> withinLimit (HTTPServer t b servers)
       \<and> maxSessionsOption None = 100
       \<and> maxSessions (HTTPServer t b servers) = 100"
proof -
  have live: "length (liveSessions now st) \<le> length (sessions st)"
    by (simp add: liveSessions_def)
  note sweep = sessions_cleanupExpiredSessions[OF assms, of now]
    cleanupExpiredSessions_frame(3)[OF assms, of now]
  have new: "\<forall>e. snd (newSession now newId cfg proc s') \<noteq> Inl e"
      "length (sessions (fst (newSession now newId cfg proc s'))) \<le> Suc (length (sessions s'))"
      "maxSessions (fst (newSession now newId cfg proc s')) = maxSessions s'" for s'
    by (simp_all add: newSession_def Let_def length_update_le)
  have create: "((\<exists>e. snd (createSession now newId cfg proc st) = Inl e)
            \<longleftrightarrow> maxSessions st \<le> length (liveSessions now st))
       \<and> (\<forall>e. snd (createSession now newId cfg proc st) = Inl e \<longrightarrow> e = MaxSessions (maxSessions st))
       \<and> (length (sessions st) \<le> maxSessions st
            \<longrightarrow> length (sessions (fst (createSession now newId cfg proc st)))
                  \<le> maxSessions (fst (createSession now newId cfg proc st)))"
  proof (cases "maxSessions st \<le> length (sessions st)")
    case False
    with live new[of st] show ?thesis
      by (auto simp: createSession_def)
  next
    case True
    show ?thesis
    proof (cases "maxSessions st \<le> length (liveSessions now st)")
      case full: True
      with True sweep live show ?thesis
        by (auto simp: createSession_def Let_def)
    next
      case False
      with True sweep new[of "cleanupExpiredSessions now st"] show ?thesis
        by (auto simp: createSession_def Let_def)
    qed
  qed
  have server: "(withinLimit st \<longrightarrow> withinLimit (handleMCPRequest Ws ep req res st))
       \<and> (withinLimit st \<longrightarrow> withinLimit (applyEvent now ev st))
       \<and> withinLimit (HTTPServer t b servers)"
    by (simp add: withinLimit_handleMCPRequest withinLimit_applyEvent withinLimit_HTTPServer)
  have limit: "maxSessionsOption None = 100 \<and> maxSessions (HTTPServer t b servers) = 100"
    by (simp add: maxSessionsOption_def HTTPServer_def)
  from create server limit show ?thesis
    by blast
qed

theorem createSession_limit_witness:
  "distinct (map fst (sessions fullServer))
   \<and> maxSessions fullServer \<le> length (liveSessions 1 fullServer)
   \<and> (\<exists>e. snd (createSession 1 ''b'' echoConfig None fullServer) = Inl e)
   \<and> \<not> maxSessions fullServer \<le> length (liveSessions 100000 fullServer)
   \<and> (\<forall>e. snd (createSession 100000 ''b'' echoConfig None fullServer) \<noteq> Inl e)
   \<and> length (sessions (fst (createSession 100000 ''b'' echoConfig None fullServer))) \<le> 1
   \<and> withinLimit fullServer
   \<and> withinLimit (handleMCPRequest (\<lambda>i. echoWorld) ''/echo'' initializePost 7 fullServer)
   \<and> withinLimit (applyEvent 1 CleanupTimer fullServer)"
  using createSession_limit[of fullServer 1 "''b''" echoConfig None "\<lambda>i. echoWorld" "''/echo''" initializePost 7 CleanupTimer]
    createSession_limit[of fullServer 100000 "''b''" echoConfig None]
  by (simp add: fullServer_eq liveSessions_def isSessionExpired_def createSession_def
      newSession_def cleanupExpiredSessions_def expireSession_def handleSessionExpired_def
      getSession.simps destroySession_eq Let_def withinLimit_def)

end
